theory Spec2Isabelle
  imports Complex_Main
begin

section \<open>JavaScript values\<close>

text \<open>
  Request fields are optional: \<open>None\<close> is an absent (\<^verbatim>\<open>undefined\<close>) or \<^verbatim>\<open>null\<close> field.
  The handlers test fields for truthiness: an empty string and the number 0 are falsy.
\<close>

definition truthyStr :: "string option \<Rightarrow> bool" where
  "truthyStr v = (case v of None \<Rightarrow> False | Some s \<Rightarrow> s \<noteq> [])"

definition truthyId :: "nat option \<Rightarrow> bool" where
  "truthyId v = (case v of None \<Rightarrow> False | Some n \<Rightarrow> n \<noteq> 0)"

text \<open>\<^verbatim>\<open>v || d\<close> on an optional string.\<close>

definition orElse :: "string option \<Rightarrow> string \<Rightarrow> string" where
  "orElse v d = (case v of None \<Rightarrow> d | Some s \<Rightarrow> if s = [] then d else s)"

text \<open>A non-negative integer inside a template literal: its decimal digits.\<close>

fun digitsOf :: "nat \<Rightarrow> string" where
  "digitsOf n =
     (if n < 10 then [char_of (48 + n)]
      else digitsOf (n div 10) @ [char_of (48 + n mod 10)])"

declare digitsOf.simps [simp del]

text \<open>An optional string inside a template literal: \<^verbatim>\<open>null\<close> prints as its name.\<close>

definition strOf :: "string option \<Rightarrow> string" where
  "strOf v = (case v of None \<Rightarrow> ''null'' | Some s \<Rightarrow> s)"

section \<open>Responses of the route handlers\<close>

text \<open>
  The handlers of \<^verbatim>\<open>routes/orders\<close> answer through \<^verbatim>\<open>res\<close>. Each shape of
  answer the modelled handlers produce is a constructor:
  \<^item> \<open>RMsg c m\<close> is \<^verbatim>\<open>res.status(c).json({ msg: m })\<close> (\<^verbatim>\<open>res.json\<close> alone is status 200);
  \<^item> \<open>RErr c e\<close> is \<^verbatim>\<open>res.status(c).json({ error: e })\<close>;
  \<^item> \<open>RErrDetails c e d\<close> is \<^verbatim>\<open>res.status(c).json({ error: e, details: d })\<close>;
  \<^item> \<open>RText c t\<close> is \<^verbatim>\<open>res.status(c).send(t)\<close>;
  \<^item> \<open>RCreated m i\<close> is \<^verbatim>\<open>res.status(201).json({ msg: m, orderId: i })\<close>;
  \<^item> \<open>RExportReady url f mime\<close> is the answer of the deferred export;
  \<^item> \<open>RFile ct f\<close> is a file piped into the response with its two headers.
\<close>

datatype response =
    RMsg nat string
  | RErr nat string
  | RErrDetails nat string string
  | RText nat string
  | RCreated string nat
  | RExportReady string string string
  | RFile string string

section \<open>The download token registry\<close>

text \<open>
  \<^verbatim>\<open>const downloadTokens = new Map()\<close>: tokens to \<^verbatim>\<open>{ filename, expiresAt }\<close>.
  Instants are the milliseconds of \<^verbatim>\<open>Date.now()\<close>.
\<close>

record fileInfo =
  filename :: string
  expiresAt :: nat

type_synonym downloadTokens = "string \<rightharpoonup> fileInfo"

text \<open>
  \<^verbatim>\<open>createDownloadToken(filename)\<close>. The token is drawn from \<^verbatim>\<open>Math.random()\<close>; the
  drawn string and the clock are arguments of the model.
\<close>

definition createDownloadToken ::
  "string \<Rightarrow> nat \<Rightarrow> string \<Rightarrow> downloadTokens \<Rightarrow> string \<times> downloadTokens" where
  "createDownloadToken token now fname reg =
     (let expires = now + (5 * 60 * 1000)
      in (token, reg(token \<mapsto> \<lparr>filename = fname, expiresAt = expires\<rparr>)))"

text \<open>\<^verbatim>\<open>verifyDownloadToken(token)\<close>: the looked-up entry or \<^verbatim>\<open>null\<close>, and the registry after.\<close>

definition verifyDownloadToken ::
  "nat \<Rightarrow> string \<Rightarrow> downloadTokens \<Rightarrow> fileInfo option \<times> downloadTokens" where
  "verifyDownloadToken now token reg =
     (case reg token of
        None \<Rightarrow> (None, reg)
      | Some info \<Rightarrow>
          if now > expiresAt info then (None, reg(token := None))
          else (Some info, reg(token := None)))"

section \<open>The deferred download endpoint\<close>

text \<open>
  The process state the endpoint touches: the registry and the files of the temporary
  directory (by name).
\<close>

record export_state =
  tokens :: downloadTokens
  tempFiles :: "string set"

definition endsWith :: "string \<Rightarrow> string \<Rightarrow> bool" where
  "endsWith s suf = (length suf \<le> length s \<and> drop (length s - length suf) s = suf)"

definition contentTypeOf :: "string \<Rightarrow> string" where
  "contentTypeOf fname =
     (if endsWith fname ''.xlsx''
        then ''application/vnd.openxmlformats-officedocument.spreadsheetml.sheet''
      else if endsWith fname ''.pdf'' then ''application/pdf''
      else if endsWith fname ''.doc'' then ''application/msword''
      else ''application/octet-stream'')"

text \<open>
  \<^verbatim>\<open>GET /download/:token\<close>. The read stream either reaches its \<^verbatim>\<open>end\<close> event, and the
  file is then unlinked, or it does not (\<open>streamEnds = False\<close>), and nothing more happens.
\<close>

definition download ::
  "nat \<Rightarrow> bool \<Rightarrow> string \<Rightarrow> export_state \<Rightarrow> response \<times> export_state" where
  "download now streamEnds token s =
     (case verifyDownloadToken now token (tokens s) of
        (None, reg) \<Rightarrow>
          (RErr 401 ''Invalid or expired download token'', s\<lparr>tokens := reg\<rparr>)
      | (Some info, reg) \<Rightarrow>
          if filename info \<notin> tempFiles s
          then (RErr 404 ''File not found'', s\<lparr>tokens := reg\<rparr>)
          else (RFile (contentTypeOf (filename info)) (filename info),
                s\<lparr>tokens := reg,
                  tempFiles := (if streamEnds then tempFiles s - {filename info}
                                else tempFiles s)\<rparr>))"

text \<open>
  The tail of \<^verbatim>\<open>POST /prepare-export\<close> once the orders are fetched and rendered: the
  generated file is in the temporary directory, a token is registered for it and the
  download path is returned.
\<close>

definition issueDownload ::
  "string \<Rightarrow> nat \<Rightarrow> string \<Rightarrow> string \<Rightarrow> export_state \<Rightarrow> response \<times> export_state" where
  "issueDownload token now fname mimeType s =
     (let written = s\<lparr>tempFiles := insert fname (tempFiles s)\<rparr>;
          (downloadToken, reg) = createDownloadToken token now fname (tokens written);
          downloadUrl = ''/api/orders/download/'' @ downloadToken
      in (RExportReady downloadUrl fname mimeType, written\<lparr>tokens := reg\<rparr>))"

section \<open>The datastore\<close>

text \<open>
  The tables the order engine reads and writes, with the columns the handlers name.
  Nullable columns are options. \<open>order_date\<close> is a \<^verbatim>\<open>DATETIME\<close> in whole seconds,
  filled by the datastore at insertion; \<open>status_default\<close> is what the datastore puts in
  \<open>status\<close> when an \<^verbatim>\<open>INSERT\<close> does not give it (the schema is not part of the
  sources, so the default is a parameter of the model). \<open>next_order_id\<close> is the
  \<^verbatim>\<open>AUTO_INCREMENT\<close> counter behind \<^verbatim>\<open>insertId\<close>.
\<close>

record order_row =
  o_id :: nat
  o_name :: "string option"
  o_phone :: "string option"
  o_address :: "string option"
  o_notes :: "string option"
  o_status :: "string option"
  o_order_source :: "string option"
  order_date :: nat
  completed_date :: "nat option"

record order_item_row =
  oi_order_id :: nat
  oi_product_id :: nat
  oi_quantity :: int
  oi_price :: rat
  oi_color_id :: "nat option"

record product_row =
  p_name_fr :: string
  p_stock :: "int option"

record color_row =
  c_product_id :: nat
  c_stock :: "int option"

record db =
  orders :: "order_row list"
  order_items :: "order_item_row list"
  products :: "nat \<rightharpoonup> product_row"
  product_colors :: "nat \<rightharpoonup> color_row"
  next_order_id :: nat
  status_default :: "string option"

text \<open>
  A leased connection inside a transaction: \<open>working\<close> is what the connection sees,
  \<open>committed\<close> is what every other connection (and every later request) sees.
\<close>

record tx =
  committed :: db
  working :: db

definition beginTransaction :: "tx \<Rightarrow> tx" where
  "beginTransaction t = t\<lparr>working := committed t\<rparr>"

definition commit :: "tx \<Rightarrow> tx" where
  "commit t = t\<lparr>committed := working t\<rparr>"

definition rollback :: "tx \<Rightarrow> tx" where
  "rollback t = t\<lparr>working := committed t\<rparr>"

text \<open>
  Datastore failures. The calls a handler awaits are numbered in the order it makes them,
  from 0; \<open>f k = Some e\<close> makes call \<open>k\<close> reject with an error of message \<open>e\<close>. A call
  that rejects changes nothing. \<^verbatim>\<open>rollback\<close> and \<^verbatim>\<open>release\<close> themselves do not fail.
\<close>

type_synonym failures = "nat \<Rightarrow> string option"

subsection \<open>The statements of the order engine\<close>

text \<open>\<^verbatim>\<open>INSERT INTO orders (...)\<close>; \<open>st = None\<close> when the statement gives no status.\<close>

definition insertOrder ::
  "string option \<Rightarrow> string option \<Rightarrow> string option \<Rightarrow> string option \<Rightarrow> string option \<Rightarrow>
   string \<Rightarrow> nat \<Rightarrow> db \<Rightarrow> nat \<times> db" where
  "insertOrder nm ph ad nt st src now d =
     (let insertId = next_order_id d;
          row = \<lparr>o_id = insertId, o_name = nm, o_phone = ph, o_address = ad, o_notes = nt,
                 o_status = (case st of None \<Rightarrow> status_default d | Some s \<Rightarrow> Some s),
                 o_order_source = Some src, order_date = now, completed_date = None\<rparr>
      in (insertId, d\<lparr>orders := orders d @ [row], next_order_id := Suc insertId\<rparr>))"

text \<open>An item of the request body. \<open>price = None\<close>: \<^verbatim>\<open>parseFloat(item.price)\<close> is \<^verbatim>\<open>NaN\<close>.\<close>

record order_item =
  productId :: nat
  colorId :: "nat option"
  quantity :: int
  price :: "rat option"

text \<open>The row of \<^verbatim>\<open>INSERT INTO order_items (...)\<close> for one item of the body.\<close>

definition itemRow :: "nat \<Rightarrow> order_item \<Rightarrow> order_item_row" where
  "itemRow orderId item =
     (let finalPrice = (case price item of None \<Rightarrow> 0 | Some p \<Rightarrow> p)
      in \<lparr>oi_order_id = orderId, oi_product_id = productId item,
          oi_quantity = quantity item, oi_price = finalPrice,
          oi_color_id = (if truthyId (colorId item) then colorId item else None)\<rparr>)"

definition insertOrderItem :: "nat \<Rightarrow> order_item \<Rightarrow> db \<Rightarrow> db" where
  "insertOrderItem orderId item d = d\<lparr>order_items := order_items d @ [itemRow orderId item]\<rparr>"

text \<open>
  \<^verbatim>\<open>UPDATE product_colors SET stock = stock - ? WHERE id = ? AND product_id = ? AND stock >= ?\<close>.
  A \<^verbatim>\<open>NULL\<close> stock satisfies no comparison.
\<close>

definition updateColorStock :: "int \<Rightarrow> nat \<Rightarrow> nat \<Rightarrow> db \<Rightarrow> db" where
  "updateColorStock q cid pid d =
     (case product_colors d cid of
        None \<Rightarrow> d
      | Some c \<Rightarrow>
          (case c_stock c of
             None \<Rightarrow> d
           | Some s \<Rightarrow>
               if c_product_id c = pid \<and> s \<ge> q
               then d\<lparr>product_colors := (product_colors d)(cid \<mapsto> c\<lparr>c_stock := Some (s - q)\<rparr>)\<rparr>
               else d))"

text \<open>\<^verbatim>\<open>UPDATE products SET stock = stock - ? WHERE id = ? AND stock >= ?\<close>.\<close>

definition updateProductStock :: "int \<Rightarrow> nat \<Rightarrow> db \<Rightarrow> db" where
  "updateProductStock q pid d =
     (case products d pid of
        None \<Rightarrow> d
      | Some p \<Rightarrow>
          (case p_stock p of
             None \<Rightarrow> d
           | Some s \<Rightarrow>
               if s \<ge> q
               then d\<lparr>products := (products d)(pid \<mapsto> p\<lparr>p_stock := Some (s - q)\<rparr>)\<rparr>
               else d))"

text \<open>The stock statement of one item of a regular order: the \<^verbatim>\<open>if (item.colorId)\<close>.\<close>

definition updateStock :: "order_item \<Rightarrow> db \<Rightarrow> db" where
  "updateStock item d =
     (case colorId item of
        None \<Rightarrow> updateProductStock (quantity item) (productId item) d
      | Some cid \<Rightarrow>
          if cid \<noteq> 0 then updateColorStock (quantity item) cid (productId item) d
          else updateProductStock (quantity item) (productId item) d)"

section \<open>The notification broadcaster\<close>

record notification =
  n_type :: string
  n_title :: string
  n_message :: string
  n_data :: order_row
  n_timestamp :: string

text \<open>
  The live channel as the routes get it from the application settings: \<open>io\<close> is the
  socket server, given by what \<^verbatim>\<open>io.to(socketId).emit(...)\<close> does for each socket id
  (\<open>Some e\<close>: it throws an error of message \<open>e\<close>); \<open>adminSockets\<close> is the set of
  registered ids in insertion order. Either setting may be unset.
\<close>

record app =
  io :: "(string \<Rightarrow> string option) option"
  adminSockets :: "string list option"

text \<open>
  \<^verbatim>\<open>adminSockets.forEach(socketId => io.to(socketId).emit('notification', notification))\<close>:
  the ids reached, or the error that stopped the loop.
\<close>

fun emitAll :: "(string \<Rightarrow> string option) \<Rightarrow> string list \<Rightarrow> string + string list" where
  "emitAll emit [] = Inr []"
| "emitAll emit (socketId # rest) =
     (case emit socketId of
        Some e \<Rightarrow> Inl e
      | None \<Rightarrow> (case emitAll emit rest of Inl e \<Rightarrow> Inl e | Inr reached \<Rightarrow> Inr (socketId # reached)))"

text \<open>
  \<^verbatim>\<open>notifyAdmins(io, adminSockets, notification)\<close>; \<open>nowIso\<close> is the clock's ISO string.
  The function has no handler of its own: what \<^verbatim>\<open>emit\<close> throws leaves it.
\<close>

definition notifyAdmins ::
  "(string \<Rightarrow> string option) \<Rightarrow> string list \<Rightarrow> string \<Rightarrow> notification \<Rightarrow>
   string + (notification \<times> string list)" where
  "notifyAdmins emit sockets nowIso n =
     (let n1 = (if n_timestamp n = [] then n\<lparr>n_timestamp := nowIso\<rparr> else n);
          n2 = (if n_title n1 = []
                then n1\<lparr>n_title := (if n_type n1 = ''order'' then ''New Order''
                                      else if n_type n1 = ''stock'' then ''Stock Alert''
                                      else ''Notification'')\<rparr>
                else n1)
      in case emitAll emit sockets of Inl e \<Rightarrow> Inl e | Inr reached \<Rightarrow> Inr (n2, reached))"

section \<open>Order creation\<close>

record order_request =
  name :: "string option"
  phone :: "string option"
  address :: "string option"
  "notes" :: "string option"
  items :: "order_item list option"
  order_source :: "string option"

text \<open>\<^verbatim>\<open>!items || items.length === 0\<close>\<close>

definition itemsMissing :: "order_request \<Rightarrow> bool" where
  "itemsMissing req = (case items req of None \<Rightarrow> True | Some its \<Rightarrow> its = [])"

definition itemsOf :: "order_request \<Rightarrow> order_item list" where
  "itemsOf req = (case items req of None \<Rightarrow> [] | Some its \<Rightarrow> its)"

text \<open>
  The loop over the items in \<^verbatim>\<open>POST /\<close>, on the working copy. \<open>k\<close> is the number of
  the next datastore call. The result is the error that stopped the loop or the number of
  the call after it, with the working copy as the loop left it.
\<close>

fun insertItems ::
  "failures \<Rightarrow> nat \<Rightarrow> bool \<Rightarrow> nat \<Rightarrow> order_item list \<Rightarrow> db \<Rightarrow> (string + nat) \<times> db" where
  "insertItems f k isWhatsAppOrder orderId [] w = (Inr k, w)"
| "insertItems f k isWhatsAppOrder orderId (item # rest) w =
     (case f k of
        Some e \<Rightarrow> (Inl e, w)
      | None \<Rightarrow>
          let w1 = insertOrderItem orderId item w in
          if \<not> isWhatsAppOrder then
            (case f (k + 1) of
               Some e \<Rightarrow> (Inl e, w1)
             | None \<Rightarrow> insertItems f (k + 2) isWhatsAppOrder orderId rest (updateStock item w1))
          else insertItems f (k + 1) isWhatsAppOrder orderId rest w1)"

text \<open>
  The notification block after the commit, shared in shape by both creation routes:
  \<^verbatim>\<open>if (orderDetails.length > 0) { if (io && adminSockets) { notifyAdmins(...) } }\<close>.
  \<open>Some e\<close>: the block threw.
\<close>

definition notifyOrder ::
  "app \<Rightarrow> string \<Rightarrow> order_row list \<Rightarrow> (order_row \<Rightarrow> string \<times> string) \<Rightarrow> string option" where
  "notifyOrder ap nowIso orderDetails titleAndMessage =
     (case orderDetails of
        [] \<Rightarrow> None
      | orderData # _ \<Rightarrow>
          (case (io ap, adminSockets ap) of
             (Some emit, Some sockets) \<Rightarrow>
               (case notifyAdmins emit sockets nowIso
                       \<lparr>n_type = ''order'', n_title = fst (titleAndMessage orderData),
                        n_message = snd (titleAndMessage orderData),
                        n_data = orderData, n_timestamp = nowIso\<rparr> of
                  Inl e \<Rightarrow> Some e
                | Inr _ \<Rightarrow> None)
           | _ \<Rightarrow> None))"

text \<open>
  The \<^verbatim>\<open>try\<close> block of \<^verbatim>\<open>POST /\<close> (create a new order). \<open>Inl e\<close>: the block threw
  an error of message \<open>e\<close>; \<open>Inr r\<close>: it answered \<open>r\<close>. Datastore calls: 0 is
  \<^verbatim>\<open>beginTransaction\<close>, 1 the order \<^verbatim>\<open>INSERT\<close>, then the calls of the loop, then
  \<^verbatim>\<open>commit\<close>, then the \<^verbatim>\<open>SELECT\<close> of the stored order on the pool.
\<close>

definition createOrderTry ::
  "failures \<Rightarrow> app \<Rightarrow> nat \<Rightarrow> string \<Rightarrow> order_request \<Rightarrow> tx \<Rightarrow> (string + response) \<times> tx" where
  "createOrderTry f ap now nowIso req t0 =
     (case f 0 of
        Some e \<Rightarrow> (Inl e, t0)
      | None \<Rightarrow>
          let t = beginTransaction t0 in
          if itemsMissing req then (Inr (RMsg 400 ''Missing required items''), t)
          else
            let isWhatsAppOrder = (order_source req = Some ''whatsapp'') in
            if \<not> isWhatsAppOrder \<and>
               (\<not> truthyStr (name req) \<or> \<not> truthyStr (phone req) \<or> \<not> truthyStr (address req))
            then (Inr (RMsg 400 ''Missing required customer information''), t)
            else
              (case f 1 of
                 Some e \<Rightarrow> (Inl e, t)
               | None \<Rightarrow>
                   let (orderId, w1) =
                         insertOrder
                           (if isWhatsAppOrder then Some ''WhatsApp Order'' else name req)
                           (if isWhatsAppOrder then Some ''WhatsApp'' else phone req)
                           (if isWhatsAppOrder then Some ''To be provided via WhatsApp''
                            else address req)
                           (if isWhatsAppOrder
                            then Some ''Customer will provide details via WhatsApp''
                            else (if truthyStr (notes req) then notes req else None))
                           None
                           (if isWhatsAppOrder then ''whatsapp'' else ''website'')
                           now (working t)
                   in
                   (case insertItems f 2 isWhatsAppOrder orderId (itemsOf req) w1 of
                      (Inl e, w2) \<Rightarrow> (Inl e, t\<lparr>working := w2\<rparr>)
                    | (Inr k, w2) \<Rightarrow>
                        (case f k of
                           Some e \<Rightarrow> (Inl e, t\<lparr>working := w2\<rparr>)
                         | None \<Rightarrow>
                             let t1 = commit (t\<lparr>working := w2\<rparr>) in
                             (case f (k + 1) of
                                Some e \<Rightarrow> (Inl e, t1)
                              | None \<Rightarrow>
                                  let orderDetails =
                                        filter (\<lambda>row. o_id row = orderId) (orders (committed t1))
                                  in
                                  (case notifyOrder ap nowIso orderDetails
                                          (\<lambda>orderData.
                                             if isWhatsAppOrder
                                             then (''WhatsApp Order'',
                                                   ''New WhatsApp order #'' @ digitsOf (o_id orderData)
                                                     @ '' created'')
                                             else (''New Order'',
                                                   ''New order #'' @ digitsOf (o_id orderData)
                                                     @ '' from '' @ strOf (o_name orderData))) of
                                     Some e \<Rightarrow> (Inl e, t1)
                                   | None \<Rightarrow>
                                       (Inr (RCreated ''Order created successfully'' orderId),
                                        t1)))))))"

text \<open>
  The whole handler on the datastore \<open>d\<close>: the connection is leased, the \<^verbatim>\<open>try\<close> block
  runs, the \<^verbatim>\<open>catch\<close> rolls back and answers 500 with the error's message, and the
  connection is released. The result is the answer and what the datastore holds
  afterwards for everyone else.
\<close>

definition createOrder ::
  "failures \<Rightarrow> app \<Rightarrow> nat \<Rightarrow> string \<Rightarrow> order_request \<Rightarrow> db \<Rightarrow> response \<times> db" where
  "createOrder f ap now nowIso req d =
     (case createOrderTry f ap now nowIso req \<lparr>committed = d, working = d\<rparr> of
        (Inl e, t) \<Rightarrow> (RErrDetails 500 ''Server error'' e, committed (rollback t))
      | (Inr r, t) \<Rightarrow> (r, committed t))"

subsection \<open>The WhatsApp route\<close>

text \<open>The loop over the items in \<^verbatim>\<open>POST /whatsapp\<close>: one \<^verbatim>\<open>INSERT\<close> per item.\<close>

fun insertItemsWhatsApp ::
  "failures \<Rightarrow> nat \<Rightarrow> nat \<Rightarrow> order_item list \<Rightarrow> db \<Rightarrow> (string + nat) \<times> db" where
  "insertItemsWhatsApp f k orderId [] w = (Inr k, w)"
| "insertItemsWhatsApp f k orderId (item # rest) w =
     (case f k of
        Some e \<Rightarrow> (Inl e, w)
      | None \<Rightarrow> insertItemsWhatsApp f (k + 1) orderId rest (insertOrderItem orderId item w))"

definition createWhatsAppOrderTry ::
  "failures \<Rightarrow> app \<Rightarrow> nat \<Rightarrow> string \<Rightarrow> order_request \<Rightarrow> tx \<Rightarrow> (string + response) \<times> tx" where
  "createWhatsAppOrderTry f ap now nowIso req t0 =
     (case f 0 of
        Some e \<Rightarrow> (Inl e, t0)
      | None \<Rightarrow>
          let t = beginTransaction t0 in
          if itemsMissing req then (Inr (RMsg 400 ''Missing required items''), t)
          else
            (case f 1 of
               Some e \<Rightarrow> (Inl e, t)
             | None \<Rightarrow>
                 let (orderId, w1) =
                       insertOrder
                         (Some (orElse (name req) ''WhatsApp Order''))
                         (Some (orElse (phone req) ''WhatsApp''))
                         (Some (orElse (address req) ''To be provided via WhatsApp''))
                         (Some (orElse (notes req) ''Customer will provide details via WhatsApp''))
                         (Some ''pending'')
                         ''whatsapp''
                         now (working t)
                 in
                 (case insertItemsWhatsApp f 2 orderId (itemsOf req) w1 of
                    (Inl e, w2) \<Rightarrow> (Inl e, t\<lparr>working := w2\<rparr>)
                  | (Inr k, w2) \<Rightarrow>
                      (case f k of
                         Some e \<Rightarrow> (Inl e, t\<lparr>working := w2\<rparr>)
                       | None \<Rightarrow>
                           let t1 = commit (t\<lparr>working := w2\<rparr>) in
                           (case f (k + 1) of
                              Some e \<Rightarrow> (Inl e, t1)
                            | None \<Rightarrow>
                                let orderDetails =
                                      filter (\<lambda>row. o_id row = orderId) (orders (committed t1))
                                in
                                (case notifyOrder ap nowIso orderDetails
                                        (\<lambda>orderData.
                                           (''WhatsApp Order'',
                                            ''New WhatsApp order #'' @ digitsOf (o_id orderData)
                                              @ '' created'')) of
                                   Some e \<Rightarrow> (Inl e, t1)
                                 | None \<Rightarrow>
                                     (Inr (RCreated ''WhatsApp order created successfully'' orderId),
                                      t1)))))))"

definition createWhatsAppOrder ::
  "failures \<Rightarrow> app \<Rightarrow> nat \<Rightarrow> string \<Rightarrow> order_request \<Rightarrow> db \<Rightarrow> response \<times> db" where
  "createWhatsAppOrder f ap now nowIso req d =
     (case createWhatsAppOrderTry f ap now nowIso req \<lparr>committed = d, working = d\<rparr> of
        (Inl e, t) \<Rightarrow> (RErrDetails 500 ''Server error'' e, committed (rollback t))
      | (Inr r, t) \<Rightarrow> (r, committed t))"

section \<open>Status update\<close>

text \<open>
  \<^verbatim>\<open>PUT /:id/status\<close>. Datastore calls: 0 is the \<^verbatim>\<open>SELECT\<close>, 1 the \<^verbatim>\<open>UPDATE\<close>.
  \<open>now\<close> is the instant \<^verbatim>\<open>new Date()\<close> reads. A stored \<open>completed_date\<close> comes back
  as a date object, which is truthy; only \<^verbatim>\<open>NULL\<close> is falsy.
\<close>

definition updateOrderStatus ::
  "failures \<Rightarrow> nat \<Rightarrow> nat \<Rightarrow> string \<Rightarrow> db \<Rightarrow> response \<times> db" where
  "updateOrderStatus f now ident status d =
     (if status \<notin> set [''pending'', ''confirmed'', ''delivered'', ''cancelled'']
      then (RMsg 400 ''Invalid status'', d)
      else
        (case f 0 of
           Some e \<Rightarrow> (RText 500 ''Server error'', d)
         | None \<Rightarrow>
             (case filter (\<lambda>row. o_id row = ident) (orders d) of
                [] \<Rightarrow> (RMsg 404 ''Order not found'', d)
              | order0 # _ \<Rightarrow>
                  let completedDate =
                        (if status = ''delivered'' \<and> completed_date order0 = None
                         then Some now else completed_date order0)
                  in
                  (case f 1 of
                     Some e \<Rightarrow> (RText 500 ''Server error'', d)
                   | None \<Rightarrow>
                       (RMsg 200 ''Order status updated'',
                        d\<lparr>orders :=
                             map (\<lambda>row. if o_id row = ident
                                         then row\<lparr>o_status := Some status,
                                                  completed_date := completedDate\<rparr>
                                         else row)
                                 (orders d)\<rparr>)))))"

section \<open>The export query\<close>

text \<open>
  The filters of an export request. A date is a day number; a \<^verbatim>\<open>DATETIME\<close> is in
  seconds, so day \<open>n\<close> runs from \<open>n * 86400\<close> (\<^verbatim>\<open>00:00:00\<close>) to
  \<open>n * 86400 + 86399\<close> (\<^verbatim>\<open>23:59:59\<close>).
\<close>

record export_request =
  exportFormat :: "string option"
  statusFilter :: "string option"
  startDate :: "nat option"
  endDate :: "nat option"
  orderId :: "nat option"

text \<open>One pushed \<^verbatim>\<open>WHERE\<close> clause with the parameter pushed for its placeholder.\<close>

datatype whereClause =
    IdEq nat
  | StatusEq string
  | OrderDateGe nat
  | OrderDateLe nat

fun holds :: "whereClause \<Rightarrow> order_row \<Rightarrow> bool" where
  "holds (IdEq i) r = (o_id r = i)"
| "holds (StatusEq s) r = (o_status r = Some s)"
| "holds (OrderDateGe t) r = (order_date r \<ge> t)"
| "holds (OrderDateLe t) r = (order_date r \<le> t)"

text \<open>The query building of \<^verbatim>\<open>POST /prepare-export\<close>, clause by clause.\<close>

definition whereClauses :: "export_request \<Rightarrow> whereClause list" where
  "whereClauses req =
     (case orderId req of
        None \<Rightarrow> []
      | Some i \<Rightarrow> if i \<noteq> 0 then [IdEq i] else [])
     @ (case statusFilter req of
          None \<Rightarrow> []
        | Some s \<Rightarrow> if s \<noteq> [] \<and> s \<noteq> ''all'' then [StatusEq s] else [])
     @ (case startDate req of
          None \<Rightarrow> []
        | Some day \<Rightarrow> [OrderDateGe (day * 86400)])
     @ (case endDate req of
          None \<Rightarrow> []
        | Some day \<Rightarrow> [OrderDateLe (day * 86400 + (23 * 3600 + 59 * 60 + 59))])"

text \<open>
  \<^verbatim>\<open>SELECT * FROM orders [WHERE c1 AND ... AND cn] ORDER BY order_date DESC\<close>. Rows of
  equal date come in an order the datastore chooses; the model fixes one.
\<close>

definition selectOrders :: "whereClause list \<Rightarrow> db \<Rightarrow> order_row list" where
  "selectOrders clauses d =
     rev (sort_key order_date (filter (\<lambda>r. list_all (\<lambda>c. holds c r) clauses) (orders d)))"

definition exportOrders :: "export_request \<Rightarrow> db \<Rightarrow> order_row list" where
  "exportOrders req d = selectOrders (whereClauses req) d"

section \<open>The renderers\<close>

text \<open>
  An order as the renderers get it: the row with its \<open>items\<close> attached. An item is a row
  of the joined query; \<open>None\<close> is \<^verbatim>\<open>NULL\<close>. \<open>fmt\<close> below is
  \<^verbatim>\<open>format(new Date(order.order_date), 'dd/MM/yyyy HH:mm')\<close>.
\<close>

record export_item =
  product_name :: "string option"
  x_quantity :: "int option"
  x_price :: "rat option"

record export_order =
  x_row :: order_row
  x_items :: "export_item list option"

text \<open>
  The letters outside ASCII of the French labels, one code unit each:
  U+00E9 and U+00C9.
\<close>

definition eAcute :: char where "eAcute = CHR 0xE9"
definition capEAcute :: char where "capEAcute = CHR 0xC9"

text \<open>
  What a status lookup in an object literal can give besides a string: the member of
  \<^verbatim>\<open>Object.prototype\<close> of that name, or \<^verbatim>\<open>undefined\<close>.
\<close>

datatype js_value = JString string | JInherited string | JUndefined

definition objectPrototypeKeys :: "string list" where
  "objectPrototypeKeys =
     [''constructor'', ''__defineGetter__'', ''__defineSetter__'', ''hasOwnProperty'',
      ''__lookupGetter__'', ''__lookupSetter__'', ''isPrototypeOf'', ''propertyIsEnumerable'',
      ''toString'', ''valueOf'', ''__proto__'', ''toLocaleString'']"

definition showInt :: "int \<Rightarrow> string" where
  "showInt i = (if i < 0 then ''-'' @ digitsOf (nat (- i)) else digitsOf (nat i))"

fun joinWith :: "string \<Rightarrow> string list \<Rightarrow> string" where
  "joinWith sep [] = []"
| "joinWith sep [x] = x"
| "joinWith sep (x # y # rest) = x @ sep @ joinWith sep (y # rest)"

subsection \<open>Spreadsheet\<close>

text \<open>\<^verbatim>\<open>statusMap[key]\<close> in \<^verbatim>\<open>createExcelExport\<close>.\<close>

definition statusMap :: "string \<Rightarrow> js_value" where
  "statusMap key =
     (if key = ''pending'' then JString ''En attente''
      else if key = ''confirmed'' then JString (''Confirm'' @ [eAcute] @ ''e'')
      else if key = ''delivered'' then JString (''Livr'' @ [eAcute] @ ''e'')
      else if key = ''cancelled'' then JString (''Annul'' @ [eAcute] @ ''e'')
      else if key \<in> set objectPrototypeKeys then JInherited key
      else JUndefined)"

text \<open>\<^verbatim>\<open>statusMap[order.status] || 'En attente'\<close>\<close>

definition excelStatus :: "string option \<Rightarrow> js_value" where
  "excelStatus st =
     (case statusMap (strOf st) of
        JUndefined \<Rightarrow> JString ''En attente''
      | JString s \<Rightarrow> if s = [] then JString ''En attente'' else JString s
      | JInherited k \<Rightarrow> JInherited k)"

text \<open>
  The object given to \<^verbatim>\<open>worksheet.addRow\<close> for one order: seven keyed cells. The
  date cell is \<^verbatim>\<open>order.order_date ? format(...) : 'N/A'\<close>; the column is never null
  here and a date object is truthy, so the cell is the formatted date.
\<close>

record excel_row =
  cell_id :: string
  cell_customer :: string
  cell_phone :: string
  cell_address :: string
  cell_date :: string
  cell_status :: js_value
  cell_products :: string

definition excelRow :: "(nat \<Rightarrow> string) \<Rightarrow> export_order \<Rightarrow> excel_row" where
  "excelRow fmt ord =
     (let productNames =
            (case x_items ord of
               None \<Rightarrow> []
             | Some its \<Rightarrow>
                 joinWith '', ''
                   (map (\<lambda>item. strOf (product_name item) @ '' (x''
                                  @ (case x_quantity item of None \<Rightarrow> ''null'' | Some q \<Rightarrow> showInt q)
                                  @ '')'')
                        its))
      in \<lparr>cell_id = ''#'' @ digitsOf (o_id (x_row ord)),
          cell_customer = orElse (o_name (x_row ord)) ''N/A'',
          cell_phone = orElse (o_phone (x_row ord)) ''N/A'',
          cell_address = orElse (o_address (x_row ord)) ''N/A'',
          cell_date = fmt (order_date (x_row ord)),
          cell_status = excelStatus (o_status (x_row ord)),
          cell_products = productNames\<rparr>)"

text \<open>
  The data rows of \<^verbatim>\<open>createExcelExport\<close>, one per order (the title, date, header and
  footer rows around them carry no order data).
\<close>

definition createExcelExport :: "(nat \<Rightarrow> string) \<Rightarrow> export_order list \<Rightarrow> excel_row list" where
  "createExcelExport fmt ords = map (excelRow fmt) ords"

text \<open>The cells of a data row in column order, as written to the sheet.\<close>

definition excelCells :: "excel_row \<Rightarrow> js_value list" where
  "excelCells r =
     [JString (cell_id r), JString (cell_customer r), JString (cell_phone r),
      JString (cell_address r), JString (cell_date r), cell_status r,
      JString (cell_products r)]"

subsection \<open>PDF\<close>

text \<open>One line of an items table, and the section of one order (a page of the PDF).\<close>

record item_line =
  l_no :: nat
  l_name :: string
  l_quantity :: int
  l_price :: rat
  l_subtotal :: rat

text \<open>
  \<open>s_table = None\<close> is the "no items" placeholder; otherwise the lines and the grand
  total printed under them.
\<close>

record order_section =
  s_title :: string
  s_status :: js_value
  s_client :: string
  s_phone :: string
  s_address :: string
  s_date :: string
  s_table :: "(item_line list \<times> rat) option"
  s_pageNumber :: string

text \<open>
  \<^verbatim>\<open>const status = order.status || 'pending'; const statusText = statusInfo[status].text\<close>.
  \<open>Inl\<close>: reading \<^verbatim>\<open>.text\<close> of \<^verbatim>\<open>undefined\<close> throws a \<^verbatim>\<open>TypeError\<close>. For a key
  inherited from \<^verbatim>\<open>Object.prototype\<close> the member has no \<^verbatim>\<open>text\<close>.
\<close>

definition pdfStatusText :: "string option \<Rightarrow> string + js_value" where
  "pdfStatusText st =
     (let status = orElse st ''pending'' in
      if status = ''pending'' then Inr (JString ''En attente'')
      else if status = ''confirmed'' then Inr (JString (''Confirm'' @ [eAcute] @ ''e''))
      else if status = ''delivered'' then Inr (JString (''Livr'' @ [eAcute] @ ''e''))
      else if status = ''cancelled'' then Inr (JString (''Annul'' @ [eAcute] @ ''e''))
      else if status \<in> set objectPrototypeKeys then Inr JUndefined
      else Inl ''Cannot read properties of undefined (reading 'text')'')"

text \<open>
  The rows loop of \<^verbatim>\<open>createPdfExport\<close>: \<open>i\<close> is the index of the next item,
  \<open>total0\<close> the running \<^verbatim>\<open>total\<close>. The result is the lines drawn and the final total.
\<close>

fun pdfRows :: "nat \<Rightarrow> rat \<Rightarrow> export_item list \<Rightarrow> item_line list \<times> rat" where
  "pdfRows i total0 [] = ([], total0)"
| "pdfRows i total0 (item # rest) =
     (let price = (case x_price item of None \<Rightarrow> 0 | Some p \<Rightarrow> p);
          quantity = (case x_quantity item of None \<Rightarrow> 0 | Some q \<Rightarrow> q);
          subtotal = price * of_int quantity;
          total1 = total0 + subtotal;
          productName = orElse (product_name item) ''Article inconnu'';
          (lines, final) = pdfRows (i + 1) total1 rest
      in (\<lparr>l_no = i + 1, l_name = productName, l_quantity = quantity,
            l_price = price, l_subtotal = subtotal\<rparr> # lines, final))"

definition pdfSection ::
  "(nat \<Rightarrow> string) \<Rightarrow> nat \<Rightarrow> nat \<Rightarrow> export_order \<Rightarrow> string + order_section" where
  "pdfSection fmt index n ord =
     (case pdfStatusText (o_status (x_row ord)) of
        Inl e \<Rightarrow> Inl e
      | Inr statusText \<Rightarrow>
          Inr \<lparr>s_title = ''Commande #'' @ digitsOf (o_id (x_row ord)),
               s_status = statusText,
               s_client = orElse (o_name (x_row ord)) ''N/A'',
               s_phone = orElse (o_phone (x_row ord)) ''N/A'',
               s_address = orElse (o_address (x_row ord)) ''N/A'',
               s_date = fmt (order_date (x_row ord)),
               s_table = (case x_items ord of
                            None \<Rightarrow> None
                          | Some its \<Rightarrow> if length its > 0 then Some (pdfRows 0 0 its) else None),
               s_pageNumber = ''Page '' @ digitsOf (index + 1) @ '' sur '' @ digitsOf n\<rparr>)"

text \<open>\<^verbatim>\<open>orders.forEach((order, index) => ...)\<close>: the first throw leaves the loop.\<close>

fun pdfSections ::
  "(nat \<Rightarrow> string) \<Rightarrow> nat \<Rightarrow> nat \<Rightarrow> export_order list \<Rightarrow> string + order_section list" where
  "pdfSections fmt index n [] = Inr []"
| "pdfSections fmt index n (ord # rest) =
     (case pdfSection fmt index n ord of
        Inl e \<Rightarrow> Inl e
      | Inr sec \<Rightarrow>
          (case pdfSections fmt (index + 1) n rest of
             Inl e \<Rightarrow> Inl e
           | Inr secs \<Rightarrow> Inr (sec # secs)))"

text \<open>
  \<^verbatim>\<open>createPdfExport\<close>: the sections of the document, or the answer of its \<^verbatim>\<open>catch\<close>.
\<close>

definition createPdfExport ::
  "(nat \<Rightarrow> string) \<Rightarrow> export_order list \<Rightarrow> response + order_section list" where
  "createPdfExport fmt ords =
     (case pdfSections fmt 0 (length ords) ords of
        Inl e \<Rightarrow>
          Inl (RErr 500 ([capEAcute] @ ''chec de la g'' @ [eAcute] @ ''n'' @ [eAcute]
                          @ ''ration du fichier PDF''))
      | Inr secs \<Rightarrow> Inr secs)"

subsection \<open>Word\<close>

text \<open>The \<^verbatim>\<open>switch (order.status)\<close> of \<^verbatim>\<open>createWordExport\<close>: label and style class.\<close>

definition wordStatus :: "string option \<Rightarrow> string \<times> string" where
  "wordStatus st =
     (if st = Some ''confirmed'' then (''Confirm'' @ [eAcute] @ ''e'', ''status-confirmed'')
      else if st = Some ''delivered'' then (''Livr'' @ [eAcute] @ ''e'', ''status-delivered'')
      else if st = Some ''cancelled'' then (''Annul'' @ [eAcute] @ ''e'', ''status-cancelled'')
      else (''En attente'', ''status-pending''))"

fun wordRows :: "nat \<Rightarrow> rat \<Rightarrow> export_item list \<Rightarrow> item_line list \<times> rat" where
  "wordRows idx total0 [] = ([], total0)"
| "wordRows idx total0 (item # rest) =
     (let price = (case x_price item of None \<Rightarrow> 0 | Some p \<Rightarrow> p);
          quantity = (case x_quantity item of None \<Rightarrow> 0 | Some q \<Rightarrow> q);
          subtotal = price * of_int quantity;
          total1 = total0 + subtotal;
          (lines, final) = wordRows (idx + 1) total1 rest
      in (\<lparr>l_no = idx + 1, l_name = orElse (product_name item) ''Article inconnu'',
            l_quantity = quantity, l_price = price, l_subtotal = subtotal\<rparr> # lines, final))"

definition wordSection :: "(nat \<Rightarrow> string) \<Rightarrow> nat \<Rightarrow> nat \<Rightarrow> export_order \<Rightarrow> order_section" where
  "wordSection fmt index n ord =
     \<lparr>s_title = ''Commande #'' @ digitsOf (o_id (x_row ord)),
      s_status = JString (fst (wordStatus (o_status (x_row ord)))),
      s_client = orElse (o_name (x_row ord)) ''N/A'',
      s_phone = orElse (o_phone (x_row ord)) ''N/A'',
      s_address = orElse (o_address (x_row ord)) ''N/A'',
      s_date = fmt (order_date (x_row ord)),
      s_table = (case x_items ord of
                   None \<Rightarrow> None
                 | Some its \<Rightarrow> if length its > 0 then Some (wordRows 0 0 its) else None),
      s_pageNumber = ''Page '' @ digitsOf (index + 1) @ '' sur '' @ digitsOf n\<rparr>"

fun wordSections ::
  "(nat \<Rightarrow> string) \<Rightarrow> nat \<Rightarrow> nat \<Rightarrow> export_order list \<Rightarrow> order_section list" where
  "wordSections fmt index n [] = []"
| "wordSections fmt index n (ord # rest) =
     wordSection fmt index n ord # wordSections fmt (index + 1) n rest"

definition createWordExport :: "(nat \<Rightarrow> string) \<Rightarrow> export_order list \<Rightarrow> order_section list" where
  "createWordExport fmt ords = wordSections fmt 0 (length ords) ords"

section \<open>The deferred export\<close>

text \<open>
  The second query of the export, once per order: the items of the order joined with
  their products (an item whose product is gone is not in the join).
\<close>

definition itemsOfOrder :: "db \<Rightarrow> nat \<Rightarrow> export_item list" where
  "itemsOfOrder d ident =
     List.map_filter
       (\<lambda>oi. if oi_order_id oi = ident
              then (case products d (oi_product_id oi) of
                      None \<Rightarrow> None
                    | Some p \<Rightarrow> Some \<lparr>product_name = Some (p_name_fr p),
                                       x_quantity = Some (oi_quantity oi),
                                       x_price = Some (oi_price oi)\<rparr>)
              else None)
       (order_items d)"

fun attachItems :: "failures \<Rightarrow> nat \<Rightarrow> db \<Rightarrow> order_row list \<Rightarrow> string + export_order list" where
  "attachItems f k d [] = Inr []"
| "attachItems f k d (r # rest) =
     (case f k of
        Some e \<Rightarrow> Inl e
      | None \<Rightarrow>
          (case attachItems f (k + 1) d rest of
             Inl e \<Rightarrow> Inl e
           | Inr ords \<Rightarrow> Inr (\<lparr>x_row = r, x_items = Some (itemsOfOrder d (o_id r))\<rparr> # ords)))"

text \<open>
  What \<^verbatim>\<open>generateExcelFile\<close>, \<^verbatim>\<open>generatePdfFile\<close> or \<^verbatim>\<open>generateWordFile\<close> did with
  the file: it is written, or the generator rejected with a message, the file being left
  behind or not.
\<close>

datatype generated = Written | Rejected string bool

text \<open>
  \<^verbatim>\<open>POST /prepare-export\<close>. Datastore calls: 0 is the orders query, then one items
  query per order. \<open>timestamp\<close> and \<open>randomId\<close> make the file name, \<open>token\<close> is the
  drawn token, \<open>now\<close> the clock.
\<close>

definition prepareExport ::
  "failures \<Rightarrow> string \<Rightarrow> string \<Rightarrow> string \<Rightarrow> nat \<Rightarrow> generated \<Rightarrow> export_request \<Rightarrow> db \<Rightarrow>
   export_state \<Rightarrow> response \<times> export_state" where
  "prepareExport f timestamp randomId token now gen req d s =
     (if exportFormat req \<notin> set [Some ''excel'', Some ''pdf'', Some ''word'']
      then (RMsg 400 ''Invalid export format'', s)
      else
        (case f 0 of
           Some e \<Rightarrow> (RErrDetails 500 ''Error during export preparation'' e, s)
         | None \<Rightarrow>
             (case attachItems f 1 d (exportOrders req d) of
                Inl e \<Rightarrow> (RErrDetails 500 ''Error during export preparation'' e, s)
              | Inr ords \<Rightarrow>
                  let base = ''orders_'' @ timestamp @ ''_'' @ randomId;
                      (fname, mimeType) =
                        (if exportFormat req = Some ''excel''
                         then (base @ ''.xlsx'',
                               ''application/vnd.openxmlformats-officedocument.spreadsheetml.sheet'')
                         else if exportFormat req = Some ''pdf''
                         then (base @ ''.pdf'', ''application/pdf'')
                         else (base @ ''.doc'', ''application/msword''))
                  in
                  (case gen of
                     Rejected e left \<Rightarrow>
                       (RErrDetails 500 ''Error during export preparation'' e,
                        if left then s\<lparr>tempFiles := insert fname (tempFiles s)\<rparr> else s)
                   | Written \<Rightarrow> issueDownload token now fname mimeType s))))"

section \<open>The specification's reading of the documents\<close>

text \<open>
  The grand total in the specification's words: the sum over the items of price
  multiplied by quantity (an unreadable price or quantity counting as 0), for an order
  that has items.
\<close>

definition specGrandTotal :: "export_item list \<Rightarrow> rat" where
  "specGrandTotal its =
     (\<Sum>item\<leftarrow>its. (case x_price item of None \<Rightarrow> 0 | Some p \<Rightarrow> p)
                     * of_int (case x_quantity item of None \<Rightarrow> 0 | Some q \<Rightarrow> q))"

definition specOrderTotal :: "export_order \<Rightarrow> rat option" where
  "specOrderTotal ord =
     (case x_items ord of
        None \<Rightarrow> None
      | Some its \<Rightarrow> if its = [] then None else Some (specGrandTotal its))"

text \<open>The grand total a rendered section reports, if it has an items table.\<close>

definition sectionTotal :: "order_section \<Rightarrow> rat option" where
  "sectionTotal sec = map_option snd (s_table sec)"

text \<open>An order with the prices of its items blanked.\<close>

definition withoutPrices :: "export_order \<Rightarrow> export_order" where
  "withoutPrices ord =
     ord\<lparr>x_items := map_option (map (\<lambda>item. item\<lparr>x_price := None\<rparr>)) (x_items ord)\<rparr>"

text \<open>The status table in the specification's words, with its fallback.\<close>

definition specStatusLabel :: "string option \<Rightarrow> string" where
  "specStatusLabel st =
     (if st = Some ''pending'' then ''En attente''
      else if st = Some ''confirmed'' then ''Confirm'' @ [eAcute] @ ''e''
      else if st = Some ''delivered'' then ''Livr'' @ [eAcute] @ ''e''
      else if st = Some ''cancelled'' then ''Annul'' @ [eAcute] @ ''e''
      else ''En attente'')"

section \<open>Reading the outcome of an order request\<close>

text \<open>
  The notions the statements about order creation are written with. A request passes
  the validation of \<^verbatim>\<open>POST /\<close> when it has items and is WhatsApp-sourced or gives
  name, phone and address.
\<close>

definition requestValid :: "order_request \<Rightarrow> bool" where
  "requestValid req =
     (\<not> itemsMissing req \<and>
      (order_source req = Some ''whatsapp'' \<or>
       (truthyStr (name req) \<and> truthyStr (phone req) \<and> truthyStr (address req))))"

text \<open>
  The number of the \<^verbatim>\<open>commit\<close> among the datastore calls of \<^verbatim>\<open>POST /\<close>: after
  \<^verbatim>\<open>beginTransaction\<close>, the order \<^verbatim>\<open>INSERT\<close>, and one call per item of a
  WhatsApp-sourced order or two per item of a regular one.
\<close>

definition commitCall :: "order_request \<Rightarrow> nat" where
  "commitCall req =
     2 + (if order_source req = Some ''whatsapp'' then 1 else 2) * length (itemsOf req)"

text \<open>
  The row the order \<^verbatim>\<open>INSERT\<close> of \<^verbatim>\<open>POST /\<close> adds (the parameter array of the
  statement, with the columns the datastore fills), and the one of \<^verbatim>\<open>POST /whatsapp\<close>.
\<close>

definition newOrderRow :: "nat \<Rightarrow> order_request \<Rightarrow> db \<Rightarrow> order_row" where
  "newOrderRow now req d =
     \<lparr>o_id = next_order_id d,
      o_name = (if order_source req = Some ''whatsapp''
                then Some ''WhatsApp Order'' else name req),
      o_phone = (if order_source req = Some ''whatsapp''
                 then Some ''WhatsApp'' else phone req),
      o_address = (if order_source req = Some ''whatsapp''
                   then Some ''To be provided via WhatsApp'' else address req),
      o_notes = (if order_source req = Some ''whatsapp''
                 then Some ''Customer will provide details via WhatsApp''
                 else (if truthyStr (notes req) then notes req else None)),
      o_status = status_default d,
      o_order_source = Some (if order_source req = Some ''whatsapp''
                             then ''whatsapp'' else ''website''),
      order_date = now, completed_date = None\<rparr>"

definition newWhatsAppRow :: "nat \<Rightarrow> order_request \<Rightarrow> db \<Rightarrow> order_row" where
  "newWhatsAppRow now req d =
     \<lparr>o_id = next_order_id d,
      o_name = Some (orElse (name req) ''WhatsApp Order''),
      o_phone = Some (orElse (phone req) ''WhatsApp''),
      o_address = Some (orElse (address req) ''To be provided via WhatsApp''),
      o_notes = Some (orElse (notes req) ''Customer will provide details via WhatsApp''),
      o_status = Some ''pending'', o_order_source = Some ''whatsapp'',
      order_date = now, completed_date = None\<rparr>"

definition withOrder :: "order_row \<Rightarrow> db \<Rightarrow> db" where
  "withOrder row d = d\<lparr>orders := orders d @ [row], next_order_id := Suc (next_order_id d)\<rparr>"

text \<open>
  The error the broadcast of a notification throws, if any: both settings are there and
  \<^verbatim>\<open>emit\<close> throws for one of the registered sockets.
\<close>

definition broadcastError :: "app \<Rightarrow> string option" where
  "broadcastError ap =
     (case (io ap, adminSockets ap) of
        (Some emit, Some sockets) \<Rightarrow>
          (case emitAll emit sockets of Inl e \<Rightarrow> Some e | Inr _ \<Rightarrow> None)
      | _ \<Rightarrow> None)"

text \<open>
  What a creation route answers once its transaction is committed; \<open>k\<close> is the number
  of the \<^verbatim>\<open>SELECT\<close> that follows the commit.
\<close>

definition afterCommit :: "failures \<Rightarrow> nat \<Rightarrow> app \<Rightarrow> string \<Rightarrow> nat \<Rightarrow> response" where
  "afterCommit f k ap msg ident =
     (case f k of
        Some e \<Rightarrow> RErrDetails 500 ''Server error'' e
      | None \<Rightarrow>
          (case broadcastError ap of
             Some e \<Rightarrow> RErrDetails 500 ''Server error'' e
           | None \<Rightarrow> RCreated msg ident))"

section \<open>Sample data\<close>

text \<open>
  A datastore with two products and two colours (colour 7 belongs to product 2, colour
  8 to product 1), and requests on it.
\<close>

definition sampleDb :: db where
  "sampleDb =
     \<lparr>orders = [], order_items = [],
      products = [1 \<mapsto> \<lparr>p_name_fr = ''Creme'', p_stock = Some 5\<rparr>,
                  2 \<mapsto> \<lparr>p_name_fr = ''Savon'', p_stock = Some 4\<rparr>],
      product_colors = [7 \<mapsto> \<lparr>c_product_id = 2, c_stock = Some 5\<rparr>,
                        8 \<mapsto> \<lparr>c_product_id = 1, c_stock = Some 1\<rparr>],
      next_order_id = 1, status_default = Some ''pending''\<rparr>"

definition sampleRequest :: order_request where
  "sampleRequest =
     \<lparr>name = Some ''Amal'', phone = Some ''0600'', address = Some ''Rabat'', notes = None,
      items = Some [\<lparr>productId = 1, colorId = None, quantity = 3, price = Some 10\<rparr>,
                    \<lparr>productId = 1, colorId = Some 8, quantity = 1, price = Some 5\<rparr>],
      order_source = None\<rparr>"

text \<open>One item naming colour 7 together with product 1, to which it does not belong.\<close>

definition sampleRequestOtherColor :: order_request where
  "sampleRequestOtherColor =
     sampleRequest\<lparr>items := Some [\<lparr>productId = 1, colorId = Some 7, quantity = 1,
                                    price = Some 5\<rparr>]\<rparr>"

definition noFailure :: failures where
  "noFailure = (\<lambda>k. None)"


definition noChannel :: app where
  "noChannel = \<lparr>io = None, adminSockets = None\<rparr>"

text \<open>One admin is connected and emitting to its socket throws.\<close>

definition brokenChannel :: app where
  "brokenChannel = \<lparr>io = Some (\<lambda>socketId. Some ''socket gone''), adminSockets = Some [''admin1'']\<rparr>"

text \<open>A stored order, and the same with its items as the renderers get it.\<close>

definition sampleRow :: order_row where
  "sampleRow = \<lparr>o_id = 1, o_name = Some ''Amal'', o_phone = Some ''0600'',
     o_address = Some ''Rabat'', o_notes = None, o_status = Some ''pending'',
     o_order_source = Some ''website'', order_date = 100, completed_date = None\<rparr>"

definition sampleOrder :: export_order where
  "sampleOrder = \<lparr>x_row = sampleRow,
     x_items = Some [\<lparr>product_name = Some ''Creme'', x_quantity = Some 2, x_price = Some 10\<rparr>,
                     \<lparr>product_name = Some ''Savon'', x_quantity = Some 1, x_price = Some 5\<rparr>]\<rparr>"

text \<open>The same order with every price doubled.\<close>

definition sampleOrderRepriced :: export_order where
  "sampleOrderRepriced = \<lparr>x_row = sampleRow,
     x_items = Some [\<lparr>product_name = Some ''Creme'', x_quantity = Some 2, x_price = Some 20\<rparr>,
                     \<lparr>product_name = Some ''Savon'', x_quantity = Some 1, x_price = Some 10\<rparr>]\<rparr>"

text \<open>The same order with a stored status outside the table.\<close>

definition sampleOrderShipped :: export_order where
  "sampleOrderShipped = sampleOrder\<lparr>x_row := sampleRow\<lparr>o_status := Some ''shipped''\<rparr>\<rparr>"

section \<open>Properties of the download token\<close>

lemma verify_removes: "snd (verifyDownloadToken now token reg) token = None"
  by (simp add: verifyDownloadToken_def split: option.splits)

lemma download_removes: "tokens (snd (download now e token s)) token = None"
  by (simp add: download_def verifyDownloadToken_def split: option.splits)

lemma download_unknown:
  "tokens s token = None \<Longrightarrow>
   fst (download now e token s) = RErr 401 ''Invalid or expired download token''"
  by (simp add: download_def verifyDownloadToken_def)

lemma prepare_ready:
  assumes "prepareExport f ts rid token t0 gen req d s0 = (RExportReady url fname mime, s1)"
  shows "url = ''/api/orders/download/'' @ token \<and>
         tokens s1 = (tokens s0)(token \<mapsto> \<lparr>filename = fname, expiresAt = t0 + 300000\<rparr>) \<and>
         tempFiles s1 = insert fname (tempFiles s0)"
  using assms
  by (auto simp: prepareExport_def issueDownload_def createDownloadToken_def Let_def
           split: if_splits option.splits sum.splits generated.splits)

text \<open>
  Claim C2. Let the deferred export issue a token at instant \<open>t0\<close>, leaving the state
  \<open>s1\<close>. A first retrieval at any instant \<open>t1\<close> up to \<open>t0\<close> plus five minutes streams the
  file and removes the token from the registry, and a second retrieval with the same
  token, whenever it comes, is answered 401. A retrieval at an instant \<open>t3\<close> after the
  five minutes is answered 401 although the token was never used, and removes the entry.
\<close>

theorem C2_download_token_one_shot:
  assumes "prepareExport f ts rid token t0 gen req d s0 = (RExportReady url fname mime, s1)"
  shows "(t1 \<le> t0 + 5 * 60 * 1000 \<longrightarrow>
           fst (download t1 e1 token s1) = RFile (contentTypeOf fname) fname \<and>
           tokens (snd (download t1 e1 token s1)) token = None \<and>
           fst (download t2 e2 token (snd (download t1 e1 token s1)))
             = RErr 401 ''Invalid or expired download token'') \<and>
         (t0 + 5 * 60 * 1000 < t3 \<longrightarrow>
           fst (download t3 e3 token s1) = RErr 401 ''Invalid or expired download token'' \<and>
           tokens (snd (download t3 e3 token s1)) token = None)"
  using prepare_ready[OF assms]
  by (auto simp: download_def verifyDownloadToken_def)

theorem C2_download_token_one_shot_witness:
  "fst (download 301000 True ''tok1''
         \<lparr>tokens = [''tok1'' \<mapsto> \<lparr>filename = ''orders_20240105_101500_ab12cd34.pdf'',
                                 expiresAt = 301000\<rparr>],
          tempFiles = {''orders_20240105_101500_ab12cd34.pdf''}\<rparr>)
     = RFile ''application/pdf'' ''orders_20240105_101500_ab12cd34.pdf'' \<and>
   fst (download 301001 True ''tok1''
         \<lparr>tokens = [''tok1'' \<mapsto> \<lparr>filename = ''orders_20240105_101500_ab12cd34.pdf'',
                                 expiresAt = 301000\<rparr>],
          tempFiles = {''orders_20240105_101500_ab12cd34.pdf''}\<rparr>)
     = RErr 401 ''Invalid or expired download token''"
proof -
  let ?s1 = "\<lparr>tokens = [''tok1'' \<mapsto> \<lparr>filename = ''orders_20240105_101500_ab12cd34.pdf'',
                                    expiresAt = 301000\<rparr>],
             tempFiles = {''orders_20240105_101500_ab12cd34.pdf''}\<rparr>"
  have issued:
    "prepareExport (\<lambda>k. None) ''20240105_101500'' ''ab12cd34'' ''tok1'' 1000 Written
       \<lparr>exportFormat = Some ''pdf'', statusFilter = None, startDate = None, endDate = None,
        orderId = None\<rparr>
       \<lparr>orders = [], order_items = [], products = Map.empty, product_colors = Map.empty,
        next_order_id = 1, status_default = Some ''pending''\<rparr>
       \<lparr>tokens = Map.empty, tempFiles = {}\<rparr>
     = (RExportReady ''/api/orders/download/tok1'' ''orders_20240105_101500_ab12cd34.pdf''
          ''application/pdf'', ?s1)"
    by (simp add: prepareExport_def exportOrders_def selectOrders_def whereClauses_def
          issueDownload_def createDownloadToken_def)
  have ct: "contentTypeOf ''orders_20240105_101500_ab12cd34.pdf'' = ''application/pdf''"
    by (simp add: contentTypeOf_def endsWith_def)
  from C2_download_token_one_shot [OF issued, of 301000 True 0 True 301001 True] ct
  show ?thesis by simp
qed

text \<open>
  Claim C10. Take a registered token that has not expired. One retrieval attempt
  removes it from the registry whatever happens next: the answer is 404 when the
  temporary file is missing and the file stream otherwise, whether or not the stream
  reaches its end (\<open>streamEnds\<close> is arbitrary), and in every case the same request
  repeated, at any instant, is answered 401.
\<close>

theorem C10_attempt_consumes_token:
  assumes "tokens s token = Some info" and "now \<le> expiresAt info"
  shows "tokens (snd (download now streamEnds token s)) token = None \<and>
         fst (download now' streamEnds' token (snd (download now streamEnds token s)))
           = RErr 401 ''Invalid or expired download token'' \<and>
         (filename info \<notin> tempFiles s \<longrightarrow>
            fst (download now streamEnds token s) = RErr 404 ''File not found'') \<and>
         (filename info \<in> tempFiles s \<longrightarrow>
            fst (download now streamEnds token s)
              = RFile (contentTypeOf (filename info)) (filename info))"
  using assms by (auto simp: download_def verifyDownloadToken_def)

theorem C10_attempt_consumes_token_witness:
  "fst (download 5 False ''tok1''
          \<lparr>tokens = [''tok1'' \<mapsto> \<lparr>filename = ''a.pdf'', expiresAt = 10\<rparr>], tempFiles = {}\<rparr>)
     = RErr 404 ''File not found'' \<and>
   fst (download 6 False ''tok1''
          (snd (download 5 False ''tok1''
             \<lparr>tokens = [''tok1'' \<mapsto> \<lparr>filename = ''a.pdf'', expiresAt = 10\<rparr>],
              tempFiles = {}\<rparr>)))
     = RErr 401 ''Invalid or expired download token''"
  using C10_attempt_consumes_token
          [of "\<lparr>tokens = [''tok1'' \<mapsto> \<lparr>filename = ''a.pdf'', expiresAt = 10\<rparr>],
                tempFiles = {}\<rparr>"
              "''tok1''" "\<lparr>filename = ''a.pdf'', expiresAt = 10\<rparr>" 5 False 6 False]
  by simp

section \<open>Properties of the status update\<close>

lemma filter_id_map_update:
  "filter (\<lambda>r. o_id r = i)
     (map (\<lambda>r. if o_id r = i then r\<lparr>o_status := st, completed_date := cd\<rparr> else r) rows)
   = map (\<lambda>r. r\<lparr>o_status := st, completed_date := cd\<rparr>) (filter (\<lambda>r. o_id r = i) rows)"
  by (induction rows) auto

text \<open>
  Claim C6. Take an existing order: the handler's \<^verbatim>\<open>SELECT\<close> by id finds \<open>order0\<close>
  first. After any status update request on it the order is still found, as \<open>order1\<close>,
  and
  \<^item> a request with one of the four statuses that meets no datastore failure is answered
    200 and stores the status;
  \<^item> an update to \<^verbatim>\<open>delivered\<close> answered 200 while \<open>completed_date\<close> was null sets it
    (to the instant of the request);
  \<^item> once \<open>completed_date\<close> is set, no request changes it, whatever the status asked
    for and whatever the answer;
  \<^item> a request for any other status leaves a null \<open>completed_date\<close> null.
\<close>

theorem C6_completed_date_set_once:
  assumes existing: "filter (\<lambda>r. o_id r = ident) (orders d) = order0 # others"
      and upd: "updateOrderStatus f now ident status d = (resp, d')"
  shows "\<exists>order1 others1.
           filter (\<lambda>r. o_id r = ident) (orders d') = order1 # others1 \<and>
           (status \<in> set [''pending'', ''confirmed'', ''delivered'', ''cancelled''] \<and>
              f 0 = None \<and> f 1 = None
              \<longrightarrow> resp = RMsg 200 ''Order status updated'' \<and> o_status order1 = Some status) \<and>
           (resp = RMsg 200 ''Order status updated'' \<and> status = ''delivered'' \<and>
              completed_date order0 = None \<longrightarrow> completed_date order1 = Some now) \<and>
           (completed_date order0 \<noteq> None \<longrightarrow> completed_date order1 = completed_date order0) \<and>
           (status \<noteq> ''delivered'' \<and> completed_date order0 = None
              \<longrightarrow> completed_date order1 = None)"
  using assms
  by (auto simp: updateOrderStatus_def Let_def filter_id_map_update
           split: if_splits option.splits list.splits)

theorem C6_completed_date_set_once_witness:
  "map completed_date
     (filter (\<lambda>r. o_id r = 7)
        (orders (snd (updateOrderStatus (\<lambda>k. None) 500 7 ''delivered''
           \<lparr>orders = [\<lparr>o_id = 7, o_name = Some ''Amal'', o_phone = Some ''0600'',
                        o_address = Some ''Rabat'', o_notes = None,
                        o_status = Some ''confirmed'', o_order_source = Some ''website'',
                        order_date = 100, completed_date = None\<rparr>],
            order_items = [], products = Map.empty, product_colors = Map.empty,
            next_order_id = 8, status_default = Some ''pending''\<rparr>))))
     = [Some 500]"
proof -
  let ?row = "\<lparr>o_id = 7, o_name = Some ''Amal'', o_phone = Some ''0600'',
                o_address = Some ''Rabat'', o_notes = None,
                o_status = Some ''confirmed'', o_order_source = Some ''website'',
                order_date = 100, completed_date = None\<rparr>"
  let ?d = "\<lparr>orders = [?row], order_items = [], products = Map.empty,
              product_colors = Map.empty, next_order_id = 8,
              status_default = Some ''pending''\<rparr>"
  let ?run = "updateOrderStatus (\<lambda>k. None) 500 7 ''delivered'' ?d"
  have existing: "filter (\<lambda>r. o_id r = 7) (orders ?d) = ?row # []" by simp
  have upd: "?run = (fst ?run, snd ?run)" by simp
  have ok: "fst ?run = RMsg 200 ''Order status updated''"
    by (simp add: updateOrderStatus_def)
  from C6_completed_date_set_once [OF existing upd] ok
  obtain order1 others1 where
    sel: "filter (\<lambda>r. o_id r = 7) (orders (snd ?run)) = order1 # others1" and
    cd: "completed_date order1 = Some 500"
    by auto
  have "length (filter (\<lambda>r. o_id r = 7) (orders (snd ?run))) = 1"
    by (simp add: updateOrderStatus_def)
  with sel have "others1 = []" by simp
  with sel cd show ?thesis by simp
qed

section \<open>Properties of the export query\<close>

lemma sorted_desc: "sorted_wrt (\<lambda>a b. f a \<ge> f b) (rev (sort_key f xs))"
  by (simp add: sorted_wrt_rev) (metis sorted_map sorted_sort_key)

text \<open>
  Claim C9. An order is in the result of the export query exactly when it is a stored
  order that satisfies every provided filter: its id is \<open>orderId\<close>; its status is the
  given status, unless that is \<^verbatim>\<open>all\<close>; its creation timestamp is at or after
  \<^verbatim>\<open>00:00:00\<close> of \<open>startDate\<close> and at or before \<^verbatim>\<open>23:59:59\<close> of \<open>endDate\<close>. A filter
  is provided when the handler's test of the field succeeds, that is when the field is
  truthy: an \<open>orderId\<close> of 0 and an empty status count as absent. The result is ordered
  newest first by order date.
\<close>

theorem C9_export_filters:
  "(r \<in> set (exportOrders req d) \<longleftrightarrow>
      r \<in> set (orders d) \<and>
      (\<forall>i. orderId req = Some i \<and> i \<noteq> 0 \<longrightarrow> o_id r = i) \<and>
      (\<forall>s. statusFilter req = Some s \<and> s \<noteq> [] \<and> s \<noteq> ''all'' \<longrightarrow> o_status r = Some s) \<and>
      (\<forall>day. startDate req = Some day \<longrightarrow> day * 86400 \<le> order_date r) \<and>
      (\<forall>day. endDate req = Some day \<longrightarrow> order_date r \<le> day * 86400 + 86399)) \<and>
   sorted_wrt (\<lambda>a b. order_date a \<ge> order_date b) (exportOrders req d)"
  by (auto simp: exportOrders_def selectOrders_def whereClauses_def sorted_desc
           split: option.splits if_splits)

theorem C9_export_filters_witness:
  "\<lparr>o_id = 2, o_name = Some ''B'', o_phone = None, o_address = None, o_notes = None,
     o_status = Some ''confirmed'', o_order_source = Some ''website'',
     order_date = 2 * 86400 + 30, completed_date = None\<rparr>
   \<in> set (exportOrders
        \<lparr>exportFormat = Some ''pdf'', statusFilter = Some ''confirmed'', startDate = Some 2,
         endDate = Some 2, orderId = Some 2\<rparr>
        \<lparr>orders =
           [\<lparr>o_id = 1, o_name = Some ''A'', o_phone = None, o_address = None, o_notes = None,
              o_status = Some ''confirmed'', o_order_source = Some ''website'',
              order_date = 1 * 86400 + 10, completed_date = None\<rparr>,
            \<lparr>o_id = 2, o_name = Some ''B'', o_phone = None, o_address = None, o_notes = None,
              o_status = Some ''confirmed'', o_order_source = Some ''website'',
              order_date = 2 * 86400 + 30, completed_date = None\<rparr>],
         order_items = [], products = Map.empty, product_colors = Map.empty,
         next_order_id = 3, status_default = Some ''pending''\<rparr>)"
  using C9_export_filters
     [of "\<lparr>o_id = 2, o_name = Some ''B'', o_phone = None, o_address = None, o_notes = None,
           o_status = Some ''confirmed'', o_order_source = Some ''website'',
           order_date = 2 * 86400 + 30, completed_date = None\<rparr>"
         "\<lparr>exportFormat = Some ''pdf'', statusFilter = Some ''confirmed'', startDate = Some 2,
           endDate = Some 2, orderId = Some 2\<rparr>"
         "\<lparr>orders =
           [\<lparr>o_id = 1, o_name = Some ''A'', o_phone = None, o_address = None, o_notes = None,
              o_status = Some ''confirmed'', o_order_source = Some ''website'',
              order_date = 1 * 86400 + 10, completed_date = None\<rparr>,
            \<lparr>o_id = 2, o_name = Some ''B'', o_phone = None, o_address = None, o_notes = None,
              o_status = Some ''confirmed'', o_order_source = Some ''website'',
              order_date = 2 * 86400 + 30, completed_date = None\<rparr>],
         order_items = [], products = Map.empty, product_colors = Map.empty,
         next_order_id = 3, status_default = Some ''pending''\<rparr>"]
  by simp

section \<open>Properties of the renderers\<close>

lemmas sample_defs = sampleRow_def sampleOrder_def sampleOrderRepriced_def sampleOrderShipped_def

lemma pdfRows_total: "snd (pdfRows i t its) = t + specGrandTotal its"
  by (induction its arbitrary: i t) (simp_all add: specGrandTotal_def Let_def split_beta)

lemma wordRows_total: "snd (wordRows i t its) = t + specGrandTotal its"
  by (induction its arbitrary: i t) (simp_all add: specGrandTotal_def Let_def split_beta)

lemma pdfRows_pair:
  "pdfRows i t its = (ls, tot) \<longleftrightarrow> ls = fst (pdfRows i t its) \<and> tot = t + specGrandTotal its"
  using pdfRows_total [of i t its] by (cases "pdfRows i t its") auto

lemma pdfSection_total:
  "pdfSection fmt i n ord = Inr sec \<Longrightarrow> sectionTotal sec = specOrderTotal ord"
  by (cases "x_items ord")
     (auto simp: pdfSection_def sectionTotal_def specOrderTotal_def pdfRows_pair
           split: sum.splits)

lemma wordSection_total: "sectionTotal (wordSection fmt i n ord) = specOrderTotal ord"
  by (cases "x_items ord")
     (simp_all add: wordSection_def sectionTotal_def specOrderTotal_def wordRows_total)

lemma pdfSections_total:
  "pdfSections fmt i n ords = Inr secs \<Longrightarrow> map sectionTotal secs = map specOrderTotal ords"
  by (induction ords arbitrary: i secs) (auto simp: pdfSection_total split: sum.splits)

lemma wordSections_total:
  "map sectionTotal (wordSections fmt i n ords) = map specOrderTotal ords"
  by (induction ords arbitrary: i) (auto simp: wordSection_total)

lemma excelRow_priceless: "excelRow fmt (withoutPrices ord) = excelRow fmt ord"
  by (cases "x_items ord") (auto simp: excelRow_def withoutPrices_def o_def)

lemma excel_priceless:
  "createExcelExport fmt (map withoutPrices ords) = createExcelExport fmt ords"
  by (simp add: createExcelExport_def excelRow_priceless o_def)

text \<open>
  Claim C3, as amended. For the same orders and items, whenever the PDF export
  renders, the grand total it reports for each order equals the one the Word export
  reports, and both are the sum over the order's items of price multiplied by quantity
  (no total for an order without items). The spreadsheet export reports no grand total:
  its rows do not depend on the prices at all.
\<close>

theorem C3_pdf_word_totals_agree:
  assumes "createPdfExport fmt ords = Inr secs"
  shows "map sectionTotal secs = map sectionTotal (createWordExport fmt ords) \<and>
         map sectionTotal secs = map specOrderTotal ords \<and>
         (map withoutPrices ords' = map withoutPrices ords
            \<longrightarrow> createExcelExport fmt ords' = createExcelExport fmt ords)"
proof -
  from assms have "pdfSections fmt 0 (length ords) ords = Inr secs"
    by (simp add: createPdfExport_def split: sum.splits)
  then have pdf: "map sectionTotal secs = map specOrderTotal ords"
    by (rule pdfSections_total)
  have word: "map sectionTotal (createWordExport fmt ords) = map specOrderTotal ords"
    by (simp add: createWordExport_def wordSections_total)
  have "createExcelExport fmt ords' = createExcelExport fmt ords"
    if "map withoutPrices ords' = map withoutPrices ords"
    using that excel_priceless [of fmt ords] excel_priceless [of fmt ords'] by simp
  with pdf word show ?thesis by simp
qed

theorem C3_pdf_word_totals_agree_witness:
  "map sectionTotal (createWordExport digitsOf [sampleOrder]) = [Some 25] \<and>
   createExcelExport digitsOf [sampleOrderRepriced] = createExcelExport digitsOf [sampleOrder]"
proof -
  obtain secs where pdf: "createPdfExport digitsOf [sampleOrder] = Inr secs"
    by (simp add: createPdfExport_def pdfSection_def pdfStatusText_def orElse_def sample_defs)
  have same: "map withoutPrices [sampleOrderRepriced] = map withoutPrices [sampleOrder]"
    by (simp add: withoutPrices_def sample_defs)
  have tot: "map specOrderTotal [sampleOrder] = [Some 25]"
    by (simp add: specOrderTotal_def specGrandTotal_def sample_defs)
  from C3_pdf_word_totals_agree [OF pdf, of "[sampleOrderRepriced]"] same tot
  show ?thesis by auto
qed

text \<open>
  The claim as stated fails on the spreadsheet. The sample order has the grand total
  25 in the PDF and Word exports, and 50 once its prices are doubled; its spreadsheet
  row is the seven cells below in both cases, none of them a total.
\<close>

theorem C3_spreadsheet_total_counterexample:
  "map excelCells (createExcelExport digitsOf [sampleOrder])
     = [[JString ''#1'', JString ''Amal'', JString ''0600'', JString ''Rabat'', JString ''100'',
         JString ''En attente'', JString ''Creme (x2), Savon (x1)'']] \<and>
   createExcelExport digitsOf [sampleOrderRepriced] = createExcelExport digitsOf [sampleOrder] \<and>
   map_sum id (map sectionTotal) (createPdfExport digitsOf [sampleOrder]) = Inr [Some 25] \<and>
   map_sum id (map sectionTotal) (createPdfExport digitsOf [sampleOrderRepriced]) = Inr [Some 50] \<and>
   map sectionTotal (createWordExport digitsOf [sampleOrder]) = [Some 25] \<and>
   map sectionTotal (createWordExport digitsOf [sampleOrderRepriced]) = [Some 50]"
  by code_simp

text \<open>
  The three renderers against the status table: the Word renderer follows it for every
  stored value, the spreadsheet for every value that is not the name of a member of
  \<^verbatim>\<open>Object.prototype\<close>, the PDF renderer for the four statuses and for a null or empty
  status.
\<close>

lemma labels_recognised:
  "fst (wordStatus st) = specStatusLabel st"
  "strOf st \<notin> set objectPrototypeKeys \<Longrightarrow> excelStatus st = JString (specStatusLabel st)"
  "st \<in> set [None, Some [], Some ''pending'', Some ''confirmed'', Some ''delivered'',
             Some ''cancelled'']
     \<Longrightarrow> pdfStatusText st = Inr (JString (specStatusLabel st))"
    apply (simp add: wordStatus_def specStatusLabel_def)
   apply (cases st; simp add: excelStatus_def statusMap_def specStatusLabel_def strOf_def
                              eAcute_def objectPrototypeKeys_def)
  apply (auto simp: pdfStatusText_def specStatusLabel_def orElse_def)
  done

text \<open>
  Claim C4 says that each of the three renderers maps an unrecognised stored status to
  the label of \<^verbatim>\<open>pending\<close>. At the stored status \<^verbatim>\<open>shipped\<close> the spreadsheet and the
  Word renderer do, and the PDF renderer does not: \<^verbatim>\<open>statusInfo[status]\<close> is
  \<^verbatim>\<open>undefined\<close>, reading its \<^verbatim>\<open>text\<close> throws, and the export is answered 500.
\<close>

theorem C4_pdf_status_unrecognised:
  "excelStatus (Some ''shipped'') = JString ''En attente'' \<and>
   fst (wordStatus (Some ''shipped'')) = ''En attente'' \<and>
   pdfStatusText (Some ''shipped'') = Inl ''Cannot read properties of undefined (reading 'text')'' \<and>
   map cell_status (createExcelExport digitsOf [sampleOrderShipped]) = [JString ''En attente''] \<and>
   map s_status (createWordExport digitsOf [sampleOrderShipped]) = [JString ''En attente''] \<and>
   createPdfExport digitsOf [sampleOrderShipped]
     = Inl (RErr 500 ([capEAcute] @ ''chec de la g'' @ [eAcute] @ ''n'' @ [eAcute]
                       @ ''ration du fichier PDF''))"
  by code_simp

section \<open>Properties of order creation\<close>

lemma updateStock_items_update:
  "updateStock it (w\<lparr>order_items := X\<rparr>) = (updateStock it w)\<lparr>order_items := X\<rparr>"
  by (simp add: updateStock_def updateColorStock_def updateProductStock_def
           split: option.splits)

lemma updateStock_fields [simp]:
  "orders (updateStock it w) = orders w"
  "order_items (updateStock it w) = order_items w"
  "next_order_id (updateStock it w) = next_order_id w"
  "status_default (updateStock it w) = status_default w"
  by (simp_all add: updateStock_def updateColorStock_def updateProductStock_def
           split: option.splits)

lemma fold_updateStock_fields [simp]:
  "orders (fold updateStock its w) = orders w"
  "order_items (fold updateStock its w) = order_items w"
  "next_order_id (fold updateStock its w) = next_order_id w"
  "status_default (fold updateStock its w) = status_default w"
  by (induction its arbitrary: w; simp)+

lemma fold_updateStock_items_update:
  "fold updateStock its (w\<lparr>order_items := X\<rparr>) = (fold updateStock its w)\<lparr>order_items := X\<rparr>"
  by (induction its arbitrary: w) (simp_all add: updateStock_items_update)

lemma insertItems_regular:
  "insertItems f k False oid its w = (Inr k', w') \<Longrightarrow>
     k' = k + 2 * length its \<and>
     w' = (fold updateStock its w)\<lparr>order_items := order_items w @ map (itemRow oid) its\<rparr>"
proof (induction its arbitrary: k w)
  case Nil
  then show ?case by simp
next
  case (Cons it its)
  from Cons.prems have
    step: "insertItems f (k + 2) False oid its (updateStock it (insertOrderItem oid it w)) = (Inr k', w')"
    by (simp add: Let_def split: option.splits)
  from Cons.IH [OF step] show ?case
    by (simp add: insertOrderItem_def updateStock_items_update fold_updateStock_items_update)
qed

lemma insertItems_whatsapp:
  "insertItems f k True oid its w = (Inr k', w') \<Longrightarrow>
     k' = k + length its \<and>
     w' = w\<lparr>order_items := order_items w @ map (itemRow oid) its\<rparr>"
proof (induction its arbitrary: k w)
  case Nil
  then show ?case by simp
next
  case (Cons it its)
  from Cons.prems have
    step: "insertItems f (k + 1) True oid its (insertOrderItem oid it w) = (Inr k', w')"
    by (simp add: Let_def split: option.splits)
  from Cons.IH [OF step] show ?case
    by (simp add: insertOrderItem_def)
qed

lemma insertItems_Inl:
  "insertItems f k wa oid its w = (Inl e, w') \<Longrightarrow>
     \<exists>j. k \<le> j \<and> j < k + (if wa then 1 else 2) * length its \<and> f j = Some e"
proof (induction its arbitrary: k w)
  case Nil
  then show ?case by simp
next
  case (Cons it its)
  show ?case
  proof (cases "f k")
    case (Some e')
    with Cons.prems show ?thesis by (auto intro!: exI [of _ k])
  next
    case None
    note fk = this
    show ?thesis
    proof (cases wa)
      case True
      with fk Cons.prems have
        "insertItems f (k + 1) wa oid its (insertOrderItem oid it w) = (Inl e, w')"
        by (simp add: Let_def)
      from Cons.IH [OF this] True obtain j where
        "k + 1 \<le> j" "j < k + 1 + length its" "f j = Some e" by auto
      with True show ?thesis by (intro exI [of _ j]) auto
    next
      case False
      show ?thesis
      proof (cases "f (k + 1)")
        case (Some e')
        with fk False Cons.prems show ?thesis by (auto simp: Let_def intro!: exI [of _ "k + 1"])
      next
        case None
        with fk False Cons.prems have
          "insertItems f (k + 2) wa oid its (updateStock it (insertOrderItem oid it w)) = (Inl e, w')"
          by (simp add: Let_def)
        from Cons.IH [OF this] False obtain j where
          "k + 2 \<le> j" "j < k + 2 + 2 * length its" "f j = Some e" by auto
        with False show ?thesis by (intro exI [of _ j]) auto
      qed
    qed
  qed
qed

lemma insertItems_Inr:
  "insertItems f k wa oid its w = (Inr k', w') \<Longrightarrow>
     \<forall>j. k \<le> j \<and> j < k + (if wa then 1 else 2) * length its \<longrightarrow> f j = None"
proof (induction its arbitrary: k w)
  case Nil
  then show ?case by auto
next
  case (Cons it its)
  show ?case
  proof (cases wa)
    case True
    with Cons.prems have fk: "f k = None" and
      step: "insertItems f (k + 1) wa oid its (insertOrderItem oid it w) = (Inr k', w')"
      by (auto simp: Let_def split: option.splits)
    have "f j = None" if "k \<le> j" "j < k + length (it # its)" for j
    proof (cases "j = k")
      case True
      with fk show ?thesis by simp
    next
      case False
      with that have "k + 1 \<le> j" "j < k + 1 + length its" by auto
      with Cons.IH [OF step] \<open>wa\<close> show ?thesis by auto
    qed
    with True show ?thesis by auto
  next
    case False
    with Cons.prems have fk: "f k = None" "f (k + 1) = None" and
      step: "insertItems f (k + 2) wa oid its (updateStock it (insertOrderItem oid it w)) = (Inr k', w')"
      by (auto simp: Let_def split: option.splits)
    have "f j = None" if "k \<le> j" "j < k + 2 * length (it # its)" for j
    proof (cases "j = k \<or> j = k + 1")
      case True
      with fk show ?thesis by auto
    next
      case False
      with that have "k + 2 \<le> j" "j < k + 2 + 2 * length its" by auto
      with Cons.IH [OF step] \<open>\<not> wa\<close> show ?thesis by auto
    qed
    with False show ?thesis by auto
  qed
qed

lemma notifyOrder_outcome:
  "orderDetails \<noteq> [] \<Longrightarrow> notifyOrder ap nowIso orderDetails tm = broadcastError ap"
  by (cases orderDetails)
     (auto simp: notifyOrder_def broadcastError_def notifyAdmins_def Let_def
           split: option.splits sum.splits)

lemma updateStock_orders_update:
  "updateStock it (w\<lparr>orders := X\<rparr>) = (updateStock it w)\<lparr>orders := X\<rparr>"
  "updateStock it (w\<lparr>next_order_id := Y\<rparr>) = (updateStock it w)\<lparr>next_order_id := Y\<rparr>"
  by (simp_all add: updateStock_def updateColorStock_def updateProductStock_def
           split: option.splits)

lemma fold_updateStock_orders_update:
  "fold updateStock its (w\<lparr>orders := X\<rparr>) = (fold updateStock its w)\<lparr>orders := X\<rparr>"
  "fold updateStock its (w\<lparr>next_order_id := Y\<rparr>) = (fold updateStock its w)\<lparr>next_order_id := Y\<rparr>"
  by (induction its arbitrary: w; simp add: updateStock_orders_update)+

lemma createOrder_early:
  "f 0 = Some e \<Longrightarrow>
     createOrder f ap now nowIso req d = (RErrDetails 500 ''Server error'' e, d)"
  "f 0 = None \<Longrightarrow> itemsMissing req \<Longrightarrow>
     createOrder f ap now nowIso req d = (RMsg 400 ''Missing required items'', d)"
  "f 0 = None \<Longrightarrow> \<not> itemsMissing req \<Longrightarrow> order_source req \<noteq> Some ''whatsapp'' \<Longrightarrow>
   \<not> (truthyStr (name req) \<and> truthyStr (phone req) \<and> truthyStr (address req)) \<Longrightarrow>
     createOrder f ap now nowIso req d
       = (RMsg 400 ''Missing required customer information'', d)"
  by (auto simp: createOrder_def createOrderTry_def beginTransaction_def rollback_def Let_def)


lemma createOrder_regular:
  assumes web: "order_source req \<noteq> Some ''whatsapp''"
      and info: "truthyStr (name req)" "truthyStr (phone req)" "truthyStr (address req)"
      and its: "\<not> itemsMissing req"
      and f0: "f 0 = None" and f1: "f 1 = None"
  shows "createOrder f ap now nowIso req d =
     (case insertItems f 2 False (next_order_id d) (itemsOf req)
             (d\<lparr>orders := orders d @
                   [\<lparr>o_id = next_order_id d, o_name = name req, o_phone = phone req,
                     o_address = address req,
                     o_notes = (if truthyStr (notes req) then notes req else None),
                     o_status = status_default d, o_order_source = Some ''website'',
                     order_date = now, completed_date = None\<rparr>],
                next_order_id := Suc (next_order_id d)\<rparr>) of
        (Inl e, w2) \<Rightarrow> (RErrDetails 500 ''Server error'' e, d)
      | (Inr k, w2) \<Rightarrow>
          (case f k of
             Some e \<Rightarrow> (RErrDetails 500 ''Server error'' e, d)
           | None \<Rightarrow>
               (case f (k + 1) of
                  Some e \<Rightarrow> (RErrDetails 500 ''Server error'' e, w2)
                | None \<Rightarrow>
                    (case notifyOrder ap nowIso
                            (filter (\<lambda>row. o_id row = next_order_id d) (orders w2))
                            (\<lambda>orderData.
                               (''New Order'',
                                ''New order #'' @ digitsOf (o_id orderData) @ '' from ''
                                  @ strOf (o_name orderData))) of
                       Some e \<Rightarrow> (RErrDetails 500 ''Server error'' e, w2)
                     | None \<Rightarrow>
                         (RCreated ''Order created successfully'' (next_order_id d), w2)))))"
  using assms
  by (simp add: createOrder_def createOrderTry_def beginTransaction_def commit_def
        rollback_def insertOrder_def Let_def
      split: option.splits sum.splits prod.splits)


lemma createOrder_whatsapp:
  assumes wa: "order_source req = Some ''whatsapp''"
      and its: "\<not> itemsMissing req"
      and f0: "f 0 = None" and f1: "f 1 = None"
  shows "createOrder f ap now nowIso req d =
     (case insertItems f 2 True (next_order_id d) (itemsOf req)
             (d\<lparr>orders := orders d @
                   [\<lparr>o_id = next_order_id d, o_name = Some ''WhatsApp Order'',
                     o_phone = Some ''WhatsApp'',
                     o_address = Some ''To be provided via WhatsApp'',
                     o_notes = Some ''Customer will provide details via WhatsApp'',
                     o_status = status_default d, o_order_source = Some ''whatsapp'',
                     order_date = now, completed_date = None\<rparr>],
                next_order_id := Suc (next_order_id d)\<rparr>) of
        (Inl e, w2) \<Rightarrow> (RErrDetails 500 ''Server error'' e, d)
      | (Inr k, w2) \<Rightarrow>
          (case f k of
             Some e \<Rightarrow> (RErrDetails 500 ''Server error'' e, d)
           | None \<Rightarrow>
               (case f (k + 1) of
                  Some e \<Rightarrow> (RErrDetails 500 ''Server error'' e, w2)
                | None \<Rightarrow>
                    (case notifyOrder ap nowIso
                            (filter (\<lambda>row. o_id row = next_order_id d) (orders w2))
                            (\<lambda>orderData.
                               (''WhatsApp Order'',
                                ''New WhatsApp order #'' @ digitsOf (o_id orderData)
                                  @ '' created'')) of
                       Some e \<Rightarrow> (RErrDetails 500 ''Server error'' e, w2)
                     | None \<Rightarrow>
                         (RCreated ''Order created successfully'' (next_order_id d), w2)))))"
  using assms
  by (simp add: createOrder_def createOrderTry_def beginTransaction_def commit_def
        rollback_def insertOrder_def Let_def
      split: option.splits sum.splits prod.splits)

lemma insertItemsWhatsApp_eq:
  "insertItemsWhatsApp f k oid its w = insertItems f k True oid its w"
  by (induction its arbitrary: k w) (auto simp: Let_def split: option.splits)

lemma createWhatsAppOrder_steps:
  assumes its: "\<not> itemsMissing req"
      and f0: "f 0 = None" and f1: "f 1 = None"
  shows "createWhatsAppOrder f ap now nowIso req d =
     (case insertItems f 2 True (next_order_id d) (itemsOf req)
             (d\<lparr>orders := orders d @
                   [\<lparr>o_id = next_order_id d,
                     o_name = Some (orElse (name req) ''WhatsApp Order''),
                     o_phone = Some (orElse (phone req) ''WhatsApp''),
                     o_address = Some (orElse (address req) ''To be provided via WhatsApp''),
                     o_notes = Some (orElse (notes req)
                                       ''Customer will provide details via WhatsApp''),
                     o_status = Some ''pending'', o_order_source = Some ''whatsapp'',
                     order_date = now, completed_date = None\<rparr>],
                next_order_id := Suc (next_order_id d)\<rparr>) of
        (Inl e, w2) \<Rightarrow> (RErrDetails 500 ''Server error'' e, d)
      | (Inr k, w2) \<Rightarrow>
          (case f k of
             Some e \<Rightarrow> (RErrDetails 500 ''Server error'' e, d)
           | None \<Rightarrow>
               (case f (k + 1) of
                  Some e \<Rightarrow> (RErrDetails 500 ''Server error'' e, w2)
                | None \<Rightarrow>
                    (case notifyOrder ap nowIso
                            (filter (\<lambda>row. o_id row = next_order_id d) (orders w2))
                            (\<lambda>orderData.
                               (''WhatsApp Order'',
                                ''New WhatsApp order #'' @ digitsOf (o_id orderData)
                                  @ '' created'')) of
                       Some e \<Rightarrow> (RErrDetails 500 ''Server error'' e, w2)
                     | None \<Rightarrow>
                         (RCreated ''WhatsApp order created successfully'' (next_order_id d),
                          w2)))))"
  using assms
  by (simp add: createWhatsAppOrder_def createWhatsAppOrderTry_def beginTransaction_def
        commit_def rollback_def insertOrder_def Let_def insertItemsWhatsApp_eq
      split: option.splits sum.splits prod.splits)

text \<open>The items loop without failures in its range.\<close>

lemma insertItems_nofail:
  assumes "\<forall>j. k \<le> j \<and> j < k + (if wa then 1 else 2) * length its \<longrightarrow> f j = None"
  shows "insertItems f k wa oid its w =
     (Inr (k + (if wa then 1 else 2) * length its),
      (if wa then w else fold updateStock its w)
        \<lparr>order_items := order_items w @ map (itemRow oid) its\<rparr>)"
proof (cases "insertItems f k wa oid its w")
  case (Pair r w')
  show ?thesis
  proof (cases r)
    case (Inl e)
    with Pair insertItems_Inl [of f k wa oid its w e w'] assms show ?thesis by auto
  next
    case (Inr k')
    with Pair insertItems_regular [of f k oid its w k' w']
      insertItems_whatsapp [of f k oid its w k' w']
    show ?thesis by (cases wa) auto
  qed
qed

text \<open>The items loop with a failure in its range, or at the call after it.\<close>

lemma insertItems_fail:
  assumes "k \<le> j" "j \<le> k + (if wa then 1 else 2) * length its" "f j \<noteq> None"
  shows "(\<exists>e w'. insertItems f k wa oid its w = (Inl e, w')) \<or>
         (\<exists>w'. insertItems f k wa oid its w =
                  (Inr (k + (if wa then 1 else 2) * length its), w') \<and>
                f (k + (if wa then 1 else 2) * length its) \<noteq> None)"
proof (cases "insertItems f k wa oid its w")
  case (Pair r w')
  show ?thesis
  proof (cases r)
    case (Inl e)
    with Pair show ?thesis by auto
  next
    case (Inr k')
    with Pair insertItems_regular [of f k oid its w k' w']
      insertItems_whatsapp [of f k oid its w k' w']
    have k': "k' = k + (if wa then 1 else 2) * length its" by (cases wa) auto
    from Pair Inr insertItems_Inr [of f k wa oid its w k' w']
    have "\<forall>j. k \<le> j \<and> j < k' \<longrightarrow> f j = None" by (simp add: k')
    with assms k' have "j = k'" by (cases "j < k'") auto
    with assms Pair Inr k' show ?thesis by auto
  qed
qed



lemma insertItems_orders:
  "insertItems f k wa oid its w = (r, w') \<Longrightarrow>
     orders w' = orders w \<and>
     (wa \<longrightarrow> products w' = products w \<and> product_colors w' = product_colors w)"
  by (induction its arbitrary: k w)
     (auto simp: Let_def insertOrderItem_def split: option.splits if_splits)

lemma createOrder_run:
  assumes valid: "requestValid req" and f0: "f 0 = None" and f1: "f 1 = None"
  shows "createOrder f ap now nowIso req d =
     (case insertItems f 2 (order_source req = Some ''whatsapp'') (next_order_id d)
             (itemsOf req) (withOrder (newOrderRow now req d) d) of
        (Inl e, w2) \<Rightarrow> (RErrDetails 500 ''Server error'' e, d)
      | (Inr k, w2) \<Rightarrow>
          (case f k of
             Some e \<Rightarrow> (RErrDetails 500 ''Server error'' e, d)
           | None \<Rightarrow>
               (afterCommit f (k + 1) ap ''Order created successfully'' (next_order_id d), w2)))"
proof -
  obtain r w2 where
    loop: "insertItems f 2 (order_source req = Some ''whatsapp'') (next_order_id d)
             (itemsOf req) (withOrder (newOrderRow now req d) d) = (r, w2)"
    by (cases "insertItems f 2 (order_source req = Some ''whatsapp'') (next_order_id d)
             (itemsOf req) (withOrder (newOrderRow now req d) d)")
  from insertItems_orders [OF loop]
  have "filter (\<lambda>row. o_id row = next_order_id d) (orders w2) \<noteq> []"
    by (simp add: withOrder_def newOrderRow_def)
  note details = notifyOrder_outcome [OF this]
  from valid have its: "\<not> itemsMissing req" by (simp add: requestValid_def)
  show ?thesis
  proof (cases "order_source req = Some ''whatsapp''")
    case True
    with loop details createOrder_whatsapp [OF True its f0 f1, of ap now nowIso d]
    show ?thesis
      by (auto simp: withOrder_def newOrderRow_def afterCommit_def split: option.splits sum.splits)
  next
    case False
    with valid have info: "truthyStr (name req)" "truthyStr (phone req)"
      "truthyStr (address req)" by (auto simp: requestValid_def)
    from False loop details createOrder_regular [OF False info its f0 f1, of ap now nowIso d]
    show ?thesis
      by (auto simp: withOrder_def newOrderRow_def afterCommit_def split: option.splits sum.splits)
  qed
qed


lemma createOrder_invalid:
  assumes "\<not> requestValid req"
  shows "snd (createOrder f ap now nowIso req d) = d \<and>
         (f 0 = None \<longrightarrow>
            fst (createOrder f ap now nowIso req d) = RMsg 400 ''Missing required items'' \<or>
            fst (createOrder f ap now nowIso req d)
              = RMsg 400 ''Missing required customer information'')"
  using assms
  by (cases "f 0"; cases "itemsMissing req")
     (auto simp: requestValid_def createOrder_early)

lemma createOrder_f1:
  assumes "requestValid req" "f 0 = None" "f 1 = Some e"
  shows "createOrder f ap now nowIso req d = (RErrDetails 500 ''Server error'' e, d)"
  using assms
  by (auto simp: createOrder_def createOrderTry_def beginTransaction_def rollback_def
        requestValid_def Let_def)

lemma createOrder_rollback:
  assumes valid: "requestValid req" and fail: "j \<le> commitCall req" "f j \<noteq> None"
  shows "snd (createOrder f ap now nowIso req d) = d \<and>
         (\<exists>e. fst (createOrder f ap now nowIso req d) = RErrDetails 500 ''Server error'' e)"
proof (cases "f 0")
  case (Some e)
  then show ?thesis by (simp add: createOrder_early)
next
  case None
  note f0 = this
  show ?thesis
  proof (cases "f 1")
    case (Some e)
    with valid f0 show ?thesis by (simp add: createOrder_f1)
  next
    case None
    note f1 = this
    from fail f0 f1 have j2: "2 \<le> j" by (cases "j = 0 \<or> j = 1") auto
    from fail have
      "j \<le> 2 + (if order_source req = Some ''whatsapp'' then 1 else 2) * length (itemsOf req)"
      by (simp add: commitCall_def)
    from insertItems_fail
           [where k = 2 and f = f and oid = "next_order_id d"
              and w = "withOrder (newOrderRow now req d) d", OF j2 this fail(2)]
      createOrder_run [OF valid f0 f1, of ap now nowIso d]
    show ?thesis by (auto split: option.splits)
  qed
qed

lemma createOrder_commit:
  assumes valid: "requestValid req" and nofail: "\<forall>j\<le>commitCall req. f j = None"
  shows "createOrder f ap now nowIso req d =
     (afterCommit f (commitCall req + 1) ap ''Order created successfully'' (next_order_id d),
      (if order_source req = Some ''whatsapp'' then withOrder (newOrderRow now req d) d
       else fold updateStock (itemsOf req) (withOrder (newOrderRow now req d) d))
        \<lparr>order_items := order_items d @ map (itemRow (next_order_id d)) (itemsOf req)\<rparr>)"
proof -
  from nofail have f0: "f 0 = None" and f1: "f 1 = None" and fk: "f (commitCall req) = None"
    by (auto simp: commitCall_def)
  from nofail
  have "\<forall>j. 2 \<le> j \<and>
          j < 2 + (if order_source req = Some ''whatsapp'' then 1 else 2) * length (itemsOf req)
          \<longrightarrow> f j = None"
    by (simp add: commitCall_def)
  from insertItems_nofail
         [where k = 2 and f = f and oid = "next_order_id d"
            and w = "withOrder (newOrderRow now req d) d", OF this]
    createOrder_run [OF valid f0 f1, of ap now nowIso d] fk
  show ?thesis
    by (simp add: commitCall_def withOrder_def)
qed

lemma createOrder_commit_fields:
  assumes valid: "requestValid req" and nofail: "\<forall>j\<le>commitCall req. f j = None"
  shows "orders (snd (createOrder f ap now nowIso req d)) = orders d @ [newOrderRow now req d]"
    and "order_items (snd (createOrder f ap now nowIso req d))
           = order_items d @ map (itemRow (next_order_id d)) (itemsOf req)"
    and "products (snd (createOrder f ap now nowIso req d))
           = (if order_source req = Some ''whatsapp'' then products d
              else products (fold updateStock (itemsOf req) d))"
    and "product_colors (snd (createOrder f ap now nowIso req d))
           = (if order_source req = Some ''whatsapp'' then product_colors d
              else product_colors (fold updateStock (itemsOf req) d))"
    and "fst (createOrder f ap now nowIso req d)
           = afterCommit f (commitCall req + 1) ap ''Order created successfully''
               (next_order_id d)"
  by (simp_all add: createOrder_commit [OF assms] withOrder_def fold_updateStock_orders_update)

text \<open>Every outcome of \<^verbatim>\<open>POST /\<close>: nothing stored, or the order stored whole.\<close>

lemma createOrder_dichotomy:
  "snd (createOrder f ap now nowIso req d) = d \<or>
   (requestValid req \<and> (\<forall>j\<le>commitCall req. f j = None))"
proof (cases "requestValid req")
  case False
  then show ?thesis by (simp add: createOrder_invalid)
next
  case True
  show ?thesis
  proof (cases "\<forall>j\<le>commitCall req. f j = None")
    case True
    with \<open>requestValid req\<close> show ?thesis by simp
  next
    case False
    then obtain j where "j \<le> commitCall req" "f j \<noteq> None" by auto
    from createOrder_rollback [where f = f and j = j, OF \<open>requestValid req\<close> this]
    show ?thesis by simp
  qed
qed

text \<open>The same for \<^verbatim>\<open>POST /whatsapp\<close>.\<close>

lemma createWhatsAppOrder_early:
  "f 0 = Some e \<Longrightarrow>
     createWhatsAppOrder f ap now nowIso req d = (RErrDetails 500 ''Server error'' e, d)"
  "f 0 = None \<Longrightarrow> itemsMissing req \<Longrightarrow>
     createWhatsAppOrder f ap now nowIso req d = (RMsg 400 ''Missing required items'', d)"
  "f 0 = None \<Longrightarrow> \<not> itemsMissing req \<Longrightarrow> f 1 = Some e \<Longrightarrow>
     createWhatsAppOrder f ap now nowIso req d = (RErrDetails 500 ''Server error'' e, d)"
  by (auto simp: createWhatsAppOrder_def createWhatsAppOrderTry_def beginTransaction_def
        rollback_def Let_def)

lemma createWhatsAppOrder_run:
  assumes its: "\<not> itemsMissing req" and f0: "f 0 = None" and f1: "f 1 = None"
  shows "createWhatsAppOrder f ap now nowIso req d =
     (case insertItems f 2 True (next_order_id d) (itemsOf req)
             (withOrder (newWhatsAppRow now req d) d) of
        (Inl e, w2) \<Rightarrow> (RErrDetails 500 ''Server error'' e, d)
      | (Inr k, w2) \<Rightarrow>
          (case f k of
             Some e \<Rightarrow> (RErrDetails 500 ''Server error'' e, d)
           | None \<Rightarrow>
               (afterCommit f (k + 1) ap ''WhatsApp order created successfully''
                  (next_order_id d), w2)))"
proof -
  obtain r w2 where
    loop: "insertItems f 2 True (next_order_id d) (itemsOf req)
             (withOrder (newWhatsAppRow now req d) d) = (r, w2)"
    by (cases "insertItems f 2 True (next_order_id d) (itemsOf req)
             (withOrder (newWhatsAppRow now req d) d)")
  from insertItems_orders [OF loop]
  have "filter (\<lambda>row. o_id row = next_order_id d) (orders w2) \<noteq> []"
    by (simp add: withOrder_def newWhatsAppRow_def)
  note details = notifyOrder_outcome [OF this]
  from loop details createWhatsAppOrder_steps [OF its f0 f1, of ap now nowIso d]
  show ?thesis
    by (auto simp: withOrder_def newWhatsAppRow_def afterCommit_def
          split: option.splits sum.splits)
qed

lemma createWhatsAppOrder_commit:
  assumes its: "\<not> itemsMissing req" and nofail: "\<forall>j\<le>2 + length (itemsOf req). f j = None"
  shows "createWhatsAppOrder f ap now nowIso req d =
     (afterCommit f (3 + length (itemsOf req)) ap ''WhatsApp order created successfully''
        (next_order_id d),
      (withOrder (newWhatsAppRow now req d) d)
        \<lparr>order_items := order_items d @ map (itemRow (next_order_id d)) (itemsOf req)\<rparr>)"
proof -
  from nofail have f0: "f 0 = None" and f1: "f 1 = None"
    and fk: "f (2 + length (itemsOf req)) = None"
    by auto
  from nofail
  have "\<forall>j. 2 \<le> j \<and> j < 2 + (if True then 1 else 2) * length (itemsOf req) \<longrightarrow> f j = None"
    by simp
  from insertItems_nofail
         [where k = 2 and f = f and wa = True and oid = "next_order_id d"
            and w = "withOrder (newWhatsAppRow now req d) d", OF this]
    createWhatsAppOrder_run [OF its f0 f1, of ap now nowIso d] fk
  show ?thesis
    by (simp add: withOrder_def numeral_3_eq_3)
qed

lemma createWhatsAppOrder_stock:
  "products (snd (createWhatsAppOrder f ap now nowIso req d)) = products d \<and>
   product_colors (snd (createWhatsAppOrder f ap now nowIso req d)) = product_colors d"
proof (cases "f 0 = None \<and> \<not> itemsMissing req \<and> f 1 = None")
  case False
  then show ?thesis
    by (cases "f 0"; cases "itemsMissing req"; cases "f 1")
       (auto simp: createWhatsAppOrder_early)
next
  case True
  obtain r w2 where
    loop: "insertItems f 2 True (next_order_id d) (itemsOf req)
             (withOrder (newWhatsAppRow now req d) d) = (r, w2)"
    by (cases "insertItems f 2 True (next_order_id d) (itemsOf req)
             (withOrder (newWhatsAppRow now req d) d)")
  from insertItems_orders [OF loop] loop True
    createWhatsAppOrder_run [of req f ap now nowIso d]
  show ?thesis
    by (auto simp: withOrder_def split: sum.splits option.splits)
qed

lemma createOrder_whatsapp_stock:
  assumes "order_source req = Some ''whatsapp''"
  shows "products (snd (createOrder f ap now nowIso req d)) = products d \<and>
         product_colors (snd (createOrder f ap now nowIso req d)) = product_colors d"
  using createOrder_dichotomy [of f ap now nowIso req d]
    createOrder_commit_fields(3,4) [of req f ap now nowIso d] assms
  by auto


lemma sample_valid: "requestValid sampleRequest" "commitCall sampleRequest = 6"
  by (simp_all add: requestValid_def commitCall_def itemsMissing_def itemsOf_def truthyStr_def
        sampleRequest_def)

lemma sample_nofail: "\<forall>j\<le>commitCall sampleRequest. noFailure j = None"
  "\<forall>j\<le>commitCall sampleRequest + 1. noFailure j = None"
  by (simp_all add: noFailure_def)


text \<open>
  Claim C7, as amended. For a request that passes validation and whose transaction
  commits:
  \<^item> on \<^verbatim>\<open>POST /\<close> with \<^verbatim>\<open>order_source\<close> equal to \<^verbatim>\<open>whatsapp\<close>, the inserted order row
    has the fixed placeholder strings as name, phone, address and notes, whatever the
    request supplied, and its source is \<^verbatim>\<open>whatsapp\<close>;
  \<^item> on \<^verbatim>\<open>POST /whatsapp\<close>, each of name, phone, address and notes is the supplied
    value when that is a non-empty string and the placeholder otherwise, and the source
    is \<^verbatim>\<open>whatsapp\<close>;
  \<^item> for a web order, the source is \<^verbatim>\<open>website\<close>, the customer fields are the supplied
    ones, and exactly one item row is stored per item of the request.
\<close>

theorem C7_order_row_by_route:
  "(order_source req = Some ''whatsapp'' \<and> requestValid req \<and>
      (\<forall>j\<le>commitCall req. f j = None) \<longrightarrow>
      (\<exists>row. orders (snd (createOrder f ap now nowIso req d)) = orders d @ [row] \<and>
             o_name row = Some ''WhatsApp Order'' \<and> o_phone row = Some ''WhatsApp'' \<and>
             o_address row = Some ''To be provided via WhatsApp'' \<and>
             o_notes row = Some ''Customer will provide details via WhatsApp'' \<and>
             o_order_source row = Some ''whatsapp'')) \<and>
   (\<not> itemsMissing req \<and> (\<forall>j\<le>2 + length (itemsOf req). f j = None) \<longrightarrow>
      (\<exists>row. orders (snd (createWhatsAppOrder f ap now nowIso req d)) = orders d @ [row] \<and>
             o_name row = Some (orElse (name req) ''WhatsApp Order'') \<and>
             o_phone row = Some (orElse (phone req) ''WhatsApp'') \<and>
             o_address row = Some (orElse (address req) ''To be provided via WhatsApp'') \<and>
             o_notes row
               = Some (orElse (notes req) ''Customer will provide details via WhatsApp'') \<and>
             o_order_source row = Some ''whatsapp'')) \<and>
   (order_source req \<noteq> Some ''whatsapp'' \<and> requestValid req \<and>
      (\<forall>j\<le>commitCall req. f j = None) \<longrightarrow>
      (\<exists>row. orders (snd (createOrder f ap now nowIso req d)) = orders d @ [row] \<and>
             o_order_source row = Some ''website'' \<and>
             o_name row = name req \<and> o_phone row = phone req \<and>
             o_address row = address req) \<and>
      order_items (snd (createOrder f ap now nowIso req d))
        = order_items d @ map (itemRow (next_order_id d)) (itemsOf req) \<and>
      length (order_items (snd (createOrder f ap now nowIso req d)))
        = length (order_items d) + length (itemsOf req))"
proof -
  have a: "\<exists>row. orders (snd (createOrder f ap now nowIso req d)) = orders d @ [row] \<and>
             o_name row = Some ''WhatsApp Order'' \<and> o_phone row = Some ''WhatsApp'' \<and>
             o_address row = Some ''To be provided via WhatsApp'' \<and>
             o_notes row = Some ''Customer will provide details via WhatsApp'' \<and>
             o_order_source row = Some ''whatsapp''"
    if "order_source req = Some ''whatsapp''" "requestValid req"
       "\<forall>j\<le>commitCall req. f j = None"
    using createOrder_commit_fields(1) [OF that(2,3), of ap now nowIso d] that(1)
    by (intro exI [of _ "newOrderRow now req d"]) (simp add: newOrderRow_def)
  have b: "\<exists>row. orders (snd (createWhatsAppOrder f ap now nowIso req d)) = orders d @ [row] \<and>
             o_name row = Some (orElse (name req) ''WhatsApp Order'') \<and>
             o_phone row = Some (orElse (phone req) ''WhatsApp'') \<and>
             o_address row = Some (orElse (address req) ''To be provided via WhatsApp'') \<and>
             o_notes row
               = Some (orElse (notes req) ''Customer will provide details via WhatsApp'') \<and>
             o_order_source row = Some ''whatsapp''"
    if "\<not> itemsMissing req" "\<forall>j\<le>2 + length (itemsOf req). f j = None"
    using createWhatsAppOrder_commit [OF that, of ap now nowIso d]
    by (intro exI [of _ "newWhatsAppRow now req d"])
       (simp add: newWhatsAppRow_def withOrder_def)
  have c: "(\<exists>row. orders (snd (createOrder f ap now nowIso req d)) = orders d @ [row] \<and>
             o_order_source row = Some ''website'' \<and>
             o_name row = name req \<and> o_phone row = phone req \<and>
             o_address row = address req) \<and>
      order_items (snd (createOrder f ap now nowIso req d))
        = order_items d @ map (itemRow (next_order_id d)) (itemsOf req) \<and>
      length (order_items (snd (createOrder f ap now nowIso req d)))
        = length (order_items d) + length (itemsOf req)"
    if "order_source req \<noteq> Some ''whatsapp''" "requestValid req"
       "\<forall>j\<le>commitCall req. f j = None"
  proof -
    from createOrder_commit_fields(1) [OF that(2,3), of ap now nowIso d] that(1)
    have "\<exists>row. orders (snd (createOrder f ap now nowIso req d)) = orders d @ [row] \<and>
             o_order_source row = Some ''website'' \<and>
             o_name row = name req \<and> o_phone row = phone req \<and>
             o_address row = address req"
      by (intro exI [of _ "newOrderRow now req d"]) (simp add: newOrderRow_def)
    with createOrder_commit_fields(2) [OF that(2,3), of ap now nowIso d]
    show ?thesis by simp
  qed
  from a b c show ?thesis by blast
qed

theorem C7_order_row_by_route_witness:
  "length (order_items (snd (createOrder noFailure noChannel 100 ''2024-01-05T10:15:00.000Z''
             sampleRequest sampleDb))) = 2"
proof -
  have web: "order_source sampleRequest \<noteq> Some ''whatsapp''"
    by (simp add: sampleRequest_def)
  from C7_order_row_by_route [of sampleRequest noFailure noChannel 100 "''2024-01-05T10:15:00.000Z''" sampleDb]
    web sample_valid(1) sample_nofail(1)
  have "length (order_items (snd (createOrder noFailure noChannel 100
            ''2024-01-05T10:15:00.000Z'' sampleRequest sampleDb)))
          = length (order_items sampleDb) + length (itemsOf sampleRequest)"
    by blast
  then show ?thesis by (simp add: sampleDb_def sampleRequest_def itemsOf_def)
qed

text \<open>
  The claim as stated fails on \<^verbatim>\<open>POST /whatsapp\<close>: a request that supplies the name
  \<^verbatim>\<open>Amal\<close> is stored with that name, not with the placeholder.
\<close>

theorem C7_whatsapp_route_keeps_customer_counterexample:
  "fst (createWhatsAppOrder noFailure noChannel 100 ''2024-01-05T10:15:00.000Z''
          sampleRequest sampleDb)
     = RCreated ''WhatsApp order created successfully'' 1 \<and>
   map o_name (orders (snd (createWhatsAppOrder noFailure noChannel 100
          ''2024-01-05T10:15:00.000Z'' sampleRequest sampleDb))) = [Some ''Amal''] \<and>
   map o_order_source (orders (snd (createWhatsAppOrder noFailure noChannel 100
          ''2024-01-05T10:15:00.000Z'' sampleRequest sampleDb))) = [Some ''whatsapp'']"
  by code_simp

text \<open>
  Claim C8, as amended. For a valid request whose transaction commits and whose
  stored order is read back, the answer is 201 with the new order id exactly when the
  broadcast throws nothing. When \<^verbatim>\<open>emit\<close> throws for a registered admin socket, the
  error leaves \<^verbatim>\<open>notifyAdmins\<close>, reaches the \<^verbatim>\<open>catch\<close> of the handler, and the answer is
  500 with the error's message. In both cases the order and its items stay stored.
\<close>

theorem C8_response_after_commit:
  "requestValid req \<and> (\<forall>j\<le>commitCall req + 1. f j = None) \<longrightarrow>
     fst (createOrder f ap now nowIso req d)
       = (case broadcastError ap of
            Some e \<Rightarrow> RErrDetails 500 ''Server error'' e
          | None \<Rightarrow> RCreated ''Order created successfully'' (next_order_id d)) \<and>
     orders (snd (createOrder f ap now nowIso req d)) = orders d @ [newOrderRow now req d] \<and>
     order_items (snd (createOrder f ap now nowIso req d))
       = order_items d @ map (itemRow (next_order_id d)) (itemsOf req)"
proof
  assume h: "requestValid req \<and> (\<forall>j\<le>commitCall req + 1. f j = None)"
  then have valid: "requestValid req" and nofail: "\<forall>j\<le>commitCall req. f j = None"
    and sel: "f (commitCall req + 1) = None" by auto
  from createOrder_commit_fields(1,2,5) [OF valid nofail, of ap now nowIso d] sel
  show "fst (createOrder f ap now nowIso req d)
       = (case broadcastError ap of
            Some e \<Rightarrow> RErrDetails 500 ''Server error'' e
          | None \<Rightarrow> RCreated ''Order created successfully'' (next_order_id d)) \<and>
     orders (snd (createOrder f ap now nowIso req d)) = orders d @ [newOrderRow now req d] \<and>
     order_items (snd (createOrder f ap now nowIso req d))
       = order_items d @ map (itemRow (next_order_id d)) (itemsOf req)"
    by (simp add: afterCommit_def)
qed

theorem C8_response_after_commit_witness:
  "fst (createOrder noFailure noChannel 100 ''2024-01-05T10:15:00.000Z'' sampleRequest sampleDb)
     = RCreated ''Order created successfully'' 1"
proof -
  have "broadcastError noChannel = None" by (simp add: broadcastError_def noChannel_def)
  with C8_response_after_commit [of sampleRequest noFailure noChannel 100 "''2024-01-05T10:15:00.000Z''"
                       sampleDb]
    sample_valid(1) sample_nofail(2)
  show ?thesis by (simp add: sampleDb_def)
qed

text \<open>
  The claim as stated fails: with one admin connected and \<^verbatim>\<open>emit\<close> throwing, the
  sample request commits (order 1 with its two items is stored) and is answered 500.
\<close>

theorem C8_broadcast_failure_counterexample:
  "fst (createOrder noFailure brokenChannel 100 ''2024-01-05T10:15:00.000Z'' sampleRequest
          sampleDb)
     = RErrDetails 500 ''Server error'' ''socket gone'' \<and>
   map o_id (orders (snd (createOrder noFailure brokenChannel 100
          ''2024-01-05T10:15:00.000Z'' sampleRequest sampleDb))) = [1] \<and>
   length (order_items (snd (createOrder noFailure brokenChannel 100
          ''2024-01-05T10:15:00.000Z'' sampleRequest sampleDb))) = 2"
  by code_simp

text \<open>The stock statement of one item, by the row it targets.\<close>

lemma updateStock_color:
  assumes "colorId item = Some c" "c \<noteq> 0"
  shows "products (updateStock item w) = products w"
    and "c' \<noteq> c \<Longrightarrow> product_colors (updateStock item w) c' = product_colors w c'"
    and "product_colors w c = Some col \<Longrightarrow> c_stock col = Some S \<Longrightarrow>
           product_colors (updateStock item w) c
             = Some (col\<lparr>c_stock := Some (if c_product_id col = productId item \<and> quantity item \<le> S
                                          then S - quantity item else S)\<rparr>)"
  using assms
  by (auto simp: updateStock_def updateColorStock_def split: option.splits)

lemma updateStock_product:
  assumes "\<not> truthyId (colorId item)"
  shows "product_colors (updateStock item w) = product_colors w"
    and "p' \<noteq> productId item \<Longrightarrow> products (updateStock item w) p' = products w p'"
    and "products w (productId item) = Some p \<Longrightarrow> p_stock p = Some S \<Longrightarrow>
           products (updateStock item w) (productId item)
             = Some (p\<lparr>p_stock := Some (if quantity item \<le> S then S - quantity item else S)\<rparr>)"
  using assms
  by (auto simp: updateStock_def updateProductStock_def truthyId_def split: option.splits)

text \<open>
  Claim C1, as amended.
  \<^item> A WhatsApp-sourced request, on either route and whatever its outcome, leaves every
    product and colour stock as it was.
  \<^item> For a regular request that passes validation and commits, the stocks afterwards
    are those obtained by running the stock statement of each item in order, and the
    answer is the one any committed request gets: no stock level raises an error.
  \<^item> The stock statement of an item of quantity \<open>q\<close> with a colour id (a truthy one,
    that is not 0) touches only that colour's row: with prior stock \<open>S\<close>, the stock
    becomes \<open>S - q\<close> when the colour belongs to the item's product and \<open>q \<le> S\<close>, and
    stays \<open>S\<close> otherwise, also when \<open>q \<le> S\<close> but the colour belongs to another product.
  \<^item> Without a colour id it touches only the product's row: with prior stock \<open>S\<close>, the
    stock becomes \<open>S - q\<close> when \<open>q \<le> S\<close> and stays \<open>S\<close> when \<open>q > S\<close>.
\<close>

theorem C1_stock_decrement:
  "(order_source req = Some ''whatsapp'' \<longrightarrow>
      products (snd (createOrder f ap now nowIso req d)) = products d \<and>
      product_colors (snd (createOrder f ap now nowIso req d)) = product_colors d) \<and>
   products (snd (createWhatsAppOrder f ap now nowIso req d)) = products d \<and>
   product_colors (snd (createWhatsAppOrder f ap now nowIso req d)) = product_colors d \<and>
   (order_source req \<noteq> Some ''whatsapp'' \<and> requestValid req \<and>
      (\<forall>j\<le>commitCall req. f j = None) \<longrightarrow>
      products (snd (createOrder f ap now nowIso req d))
        = products (fold updateStock (itemsOf req) d) \<and>
      product_colors (snd (createOrder f ap now nowIso req d))
        = product_colors (fold updateStock (itemsOf req) d) \<and>
      fst (createOrder f ap now nowIso req d)
        = afterCommit f (commitCall req + 1) ap ''Order created successfully''
            (next_order_id d)) \<and>
   (\<forall>c. colorId item = Some c \<and> c \<noteq> 0 \<longrightarrow>
      products (updateStock item w) = products w \<and>
      (\<forall>c'. c' \<noteq> c \<longrightarrow> product_colors (updateStock item w) c' = product_colors w c') \<and>
      (\<forall>col S. product_colors w c = Some col \<and> c_stock col = Some S \<longrightarrow>
         product_colors (updateStock item w) c
           = Some (col\<lparr>c_stock :=
                          Some (if c_product_id col = productId item \<and> quantity item \<le> S
                                then S - quantity item else S)\<rparr>))) \<and>
   (\<not> truthyId (colorId item) \<longrightarrow>
      product_colors (updateStock item w) = product_colors w \<and>
      (\<forall>p'. p' \<noteq> productId item \<longrightarrow> products (updateStock item w) p' = products w p') \<and>
      (\<forall>p S. products w (productId item) = Some p \<and> p_stock p = Some S \<longrightarrow>
         products (updateStock item w) (productId item)
           = Some (p\<lparr>p_stock := Some (if quantity item \<le> S then S - quantity item else S)\<rparr>)))"
proof -
  have a: "products (snd (createOrder f ap now nowIso req d)) = products d \<and>
      product_colors (snd (createOrder f ap now nowIso req d)) = product_colors d"
    if "order_source req = Some ''whatsapp''"
    using that by (rule createOrder_whatsapp_stock)
  have b: "products (snd (createOrder f ap now nowIso req d))
        = products (fold updateStock (itemsOf req) d) \<and>
      product_colors (snd (createOrder f ap now nowIso req d))
        = product_colors (fold updateStock (itemsOf req) d) \<and>
      fst (createOrder f ap now nowIso req d)
        = afterCommit f (commitCall req + 1) ap ''Order created successfully''
            (next_order_id d)"
    if "order_source req \<noteq> Some ''whatsapp''" "requestValid req"
       "\<forall>j\<le>commitCall req. f j = None"
    using createOrder_commit_fields(3,4,5) [OF that(2,3), of ap now nowIso d] that(1)
    by simp
  from a b createWhatsAppOrder_stock [of f ap now nowIso req d]
    updateStock_color [where item = item and w = w]
    updateStock_product [where item = item and w = w]
  show ?thesis by blast
qed

theorem C1_stock_decrement_witness:
  "map_option p_stock
     (products (snd (createOrder noFailure noChannel 100 ''2024-01-05T10:15:00.000Z''
                       sampleRequest sampleDb)) 1) = Some (Some 2) \<and>
   map_option c_stock
     (product_colors (snd (createOrder noFailure noChannel 100 ''2024-01-05T10:15:00.000Z''
                       sampleRequest sampleDb)) 8) = Some (Some 0)"
proof -
  have web: "order_source sampleRequest \<noteq> Some ''whatsapp''"
    by (simp add: sampleRequest_def)
  from C1_stock_decrement [of sampleRequest noFailure noChannel 100 "''2024-01-05T10:15:00.000Z''"
                    sampleDb]
    web sample_valid(1) sample_nofail(1)
  have "products (snd (createOrder noFailure noChannel 100 ''2024-01-05T10:15:00.000Z''
                       sampleRequest sampleDb))
          = products (fold updateStock (itemsOf sampleRequest) sampleDb)"
    and "product_colors (snd (createOrder noFailure noChannel 100
                       ''2024-01-05T10:15:00.000Z'' sampleRequest sampleDb))
          = product_colors (fold updateStock (itemsOf sampleRequest) sampleDb)"
    by blast+
  then show ?thesis
    by (simp add: sampleDb_def sampleRequest_def itemsOf_def updateStock_def
          updateProductStock_def updateColorStock_def)
qed

text \<open>
  The claim as stated fails when the colour named by an item belongs to another product:
  colour 7 has stock 5 and belongs to product 2; an item of quantity 1 naming it with
  product 1 is accepted (201) and leaves the colour's stock at 5, and the product's too.
\<close>

theorem C1_foreign_color_counterexample:
  "fst (createOrder noFailure noChannel 100 ''2024-01-05T10:15:00.000Z''
          sampleRequestOtherColor sampleDb)
     = RCreated ''Order created successfully'' 1 \<and>
   map_option c_stock (product_colors sampleDb 7) = Some (Some 5) \<and>
   map_option c_stock
     (product_colors (snd (createOrder noFailure noChannel 100 ''2024-01-05T10:15:00.000Z''
                       sampleRequestOtherColor sampleDb)) 7) = Some (Some 5) \<and>
   map_option p_stock
     (products (snd (createOrder noFailure noChannel 100 ''2024-01-05T10:15:00.000Z''
                       sampleRequestOtherColor sampleDb)) 1) = Some (Some 5)"
  by code_simp

end
